theory Spec2Isabelle
  imports
    Main
    "HOL-Library.Char_ord"
    "HOL-Library.List_Lexorder"
    "HOL-Library.Product_Lexorder"
    "HOL-Library.Multiset"
    "HOL-Library.Monad_Syntax"
begin

section \<open>Values of a table cell\<close>

text \<open>
  The dashboard script \<^verbatim>\<open>dashboard_siga_v7.py\<close> works on pandas data frames. A cell
  holds text, a number, a time stamp, or one of the three missing markers of pandas
  (\<^verbatim>\<open>NaN\<close>, \<^verbatim>\<open>None\<close>, \<^verbatim>\<open>NaT\<close>). A time stamp of dtype \<^verbatim>\<open>datetime64[ns]\<close> is the
  number of nanoseconds since 1970-01-01T00:00; a calendar date (\<^verbatim>\<open>datetime.date\<close>) is
  the number of days since 1970-01-01. Numbers are the integer-valued ones (identifiers
  and day counts); a character of a \<open>string\<close> stands for one code point below 256,
  which covers the Portuguese column labels and month names of the script.
\<close>

datatype cell = NaN | PyNone | NaT | Str string | Num int | Timestamp int

datatype dtype = datetime64 | float64 | int64 | object

fun notna :: "cell \<Rightarrow> bool" where
  "notna NaN = False"
| "notna PyNone = False"
| "notna NaT = False"
| "notna _ = True"

definition dropna :: "cell list \<Rightarrow> cell list" where
  "dropna xs = filter notna xs"

text \<open>\<^verbatim>\<open>Series.unique()\<close>: the distinct values in order of first appearance.\<close>

definition unique :: "'a list \<Rightarrow> 'a list" where
  "unique xs = rev (remdups (rev xs))"

subsection \<open>Calendar\<close>

definition ns_per_day :: int where
  "ns_per_day = 86400000000000"

text \<open>\<^verbatim>\<open>Timestamp.date()\<close> drops the time of day.\<close>

definition to_date :: "int \<Rightarrow> int" where
  "to_date ns = ns div ns_per_day"

text \<open>
  Year, month and day of a day number in the proleptic Gregorian calendar, computed
  over 400-year eras that start on 1 March.
\<close>

definition civil :: "int \<Rightarrow> int \<times> int \<times> int" where
  "civil z0 =
     (let z = z0 + 719468;
          era = z div 146097;
          doe = z - era * 146097;
          yoe = (doe - doe div 1460 + doe div 36524 - doe div 146096) div 365;
          doy = doe - (365 * yoe + yoe div 4 - yoe div 100);
          mp = (5 * doy + 2) div 153;
          d = doy - (153 * mp + 2) div 5 + 1;
          m = (if mp < 10 then mp + 3 else mp - 9);
          y = yoe + era * 400 + (if m \<le> 2 then 1 else 0)
      in (y, m, d))"

definition date_year :: "int \<Rightarrow> int" where
  "date_year d = fst (civil d)"

definition date_month :: "int \<Rightarrow> int" where
  "date_month d = fst (snd (civil d))"

definition date_day :: "int \<Rightarrow> int" where
  "date_day d = snd (snd (civil d))"

text \<open>The \<^verbatim>\<open>.year\<close> and \<^verbatim>\<open>.month\<close> attributes of a time stamp.\<close>

definition ts_year :: "int \<Rightarrow> int" where
  "ts_year ns = date_year (to_date ns)"

definition ts_month :: "int \<Rightarrow> int" where
  "ts_month ns = date_month (to_date ns)"

subsection \<open>Rendering as text\<close>

definition digit_char :: "nat \<Rightarrow> char" where
  "digit_char n = char_of (48 + n)"

function str_nat :: "nat \<Rightarrow> string" where
  "str_nat n = (if n < 10 then [digit_char n] else str_nat (n div 10) @ [digit_char (n mod 10)])"
  by pat_completeness auto
termination
  by (relation "measure id") auto

declare str_nat.simps [simp del]

definition str_int :: "int \<Rightarrow> string" where
  "str_int i = (if i < 0 then CHR ''-'' # str_nat (nat (- i)) else str_nat (nat i))"

definition zfill :: "nat \<Rightarrow> string \<Rightarrow> string" where
  "zfill w s = replicate (w - length s) CHR ''0'' @ s"

text \<open>\<^verbatim>\<open>strftime('%Y-%m-%d')\<close> of a time stamp: the date part only.\<close>

definition strftime_ymd :: "int \<Rightarrow> string" where
  "strftime_ymd ns =
     (case civil (to_date ns) of (y, m, d) \<Rightarrow>
        zfill 4 (str_int y) @ ''-'' @ zfill 2 (str_int m) @ ''-'' @ zfill 2 (str_int d))"

section \<open>Data frames\<close>

text \<open>
  A data frame is its column labels with their dtypes, and its rows in order; a row
  carries its index label and one cell per column. A Python exception that nothing
  catches (\<^verbatim>\<open>KeyError\<close> for an absent column, \<^verbatim>\<open>TypeError\<close> for comparing text
  with a number, \<^verbatim>\<open>AttributeError\<close> for \<^verbatim>\<open>.dt\<close> or \<^verbatim>\<open>.year\<close> on something that is
  not a time stamp) ends the script run: the functions below return \<open>None\<close> there.
\<close>

record dataframe =
  columns :: "(string \<times> dtype) list"
  rows :: "(int \<times> cell list) list"

fun get_loc :: "string \<Rightarrow> (string \<times> dtype) list \<Rightarrow> nat option" where
  "get_loc k [] = None"
| "get_loc k (c # cs) = (if fst c = k then Some 0 else map_option Suc (get_loc k cs))"

text \<open>\<^verbatim>\<open>df[name]\<close>: the cells of one column, top to bottom.\<close>

definition getitem :: "dataframe \<Rightarrow> string \<Rightarrow> cell list option" where
  "getitem df name = map_option (\<lambda>i. map (\<lambda>r. snd r ! i) (rows df)) (get_loc name (columns df))"

text \<open>\<^verbatim>\<open>df[mask]\<close>: a new frame with the rows whose mask entry is true.\<close>

definition boolean_index :: "dataframe \<Rightarrow> bool list \<Rightarrow> dataframe" where
  "boolean_index df keep = df\<lparr>rows := map fst (filter snd (zip (rows df) keep))\<rparr>"

definition isin :: "cell \<Rightarrow> cell list \<Rightarrow> bool" where
  "isin c vals = (c \<in> set vals)"

text \<open>
  \<^verbatim>\<open>sorted(...)\<close> compares text with text, numbers with numbers and time stamps with
  time stamps, and raises \<^verbatim>\<open>TypeError\<close> on a list that mixes them. The script sorts
  only what \<^verbatim>\<open>dropna()\<close> has left.
\<close>

fun kind :: "cell \<Rightarrow> nat" where
  "kind (Str s) = 1"
| "kind (Num n) = 2"
| "kind (Timestamp t) = 3"
| "kind _ = 0"

fun cell_key :: "cell \<Rightarrow> nat \<times> int \<times> string" where
  "cell_key (Str s) = (1, 0, s)"
| "cell_key (Num n) = (2, n, [])"
| "cell_key (Timestamp t) = (3, t, [])"
| "cell_key NaN = (0, 0, [])"
| "cell_key PyNone = (0, 1, [])"
| "cell_key NaT = (0, 2, [])"

definition py_sorted :: "cell list \<Rightarrow> cell list option" where
  "py_sorted xs =
     (case xs of
        [] \<Rightarrow> Some []
      | x # _ \<Rightarrow> if list_all (\<lambda>y. kind y = kind x \<and> notna y) xs
                 then Some (sort_key cell_key xs) else None)"

subsection \<open>Column labels and constants of the script\<close>

definition col_tipo :: string where
  "col_tipo = ''Tipo de Servi'' @ [CHR 0xE7] @ ''o''"

definition col_fiscal :: string where
  "col_fiscal = ''Fiscal''"

definition col_rpa :: string where
  "col_rpa = ''RPA''"

definition col_uf :: string where
  "col_uf = [CHR 0xDA] @ ''ltima Fiscaliza'' @ [CHR 0xE7, CHR 0xE3] @ ''o''"

definition col_dias :: string where
  "col_dias = ''Dias desde '' @ [CHR 0xFA] @ ''ltima fiscaliza'' @ [CHR 0xE7, CHR 0xE3] @ ''o''"

definition month_names :: "(int \<times> string) list" where
  "month_names =
     [(1, ''Janeiro''), (2, ''Fevereiro''), (3, ''Mar'' @ [CHR 0xE7] @ ''o''), (4, ''Abril''),
      (5, ''Maio''), (6, ''Junho''), (7, ''Julho''), (8, ''Agosto''),
      (9, ''Setembro''), (10, ''Outubro''), (11, ''Novembro''), (12, ''Dezembro'')]"

text \<open>
  \<^verbatim>\<open>list(month_names.keys())[list(month_names.values()).index(m)]\<close>: the number of a
  month name; \<^verbatim>\<open>ValueError\<close> for any other text.
\<close>

definition month_number :: "string \<Rightarrow> int option" where
  "month_number m = map_of (map (\<lambda>p. (snd p, fst p)) month_names) m"

section \<open>The mandatory filters (script lines 123 to 155)\<close>

text \<open>
  The widgets of the sidebar belong to the user-interface framework. The model takes
  what each widget call returns in this run as a parameter, and records what the script
  passes to the widget (the options it offers, the default).
\<close>

record widgets =
  tipos_selecionados :: "cell list"
  fiscais_selecionados :: "cell list"
  rpas_selecionadas :: "cell list"
  year_slider :: int
  months_multiselect :: "string list"
  alerta_dias_config :: int

datatype aviso = SelecioneTipo | SelecioneFiscal | SelecioneRPA

text \<open>\<^verbatim>\<open>sorted(df[name].dropna().unique())\<close>\<close>

definition opcoes :: "dataframe \<Rightarrow> string \<Rightarrow> cell list option" where
  "opcoes df name = do { s \<leftarrow> getitem df name; py_sorted (unique (dropna s)) }"

text \<open>\<^verbatim>\<open>df[df[name].isin(vals)]\<close>\<close>

definition filtrar_isin :: "dataframe \<Rightarrow> string \<Rightarrow> cell list \<Rightarrow> dataframe option" where
  "filtrar_isin df name vals =
     do { s \<leftarrow> getitem df name; Some (boolean_index df (map (\<lambda>c. isin c vals) s)) }"

definition tipo_padrao :: "cell list \<Rightarrow> cell list" where
  "tipo_padrao tipos_disponiveis =
     (if Str ''Buraco SIGA'' \<in> set tipos_disponiveis then [Str ''Buraco SIGA'']
      else (case tipos_disponiveis of [] \<Rightarrow> [] | t # _ \<Rightarrow> [t]))"

record obrigatorios =
  tipos_disponiveis :: "cell list"
  tipo_default :: "cell list"
  fiscais_disponiveis :: "cell list"
  rpas_disponiveis :: "cell list"
  df_obrigatorios :: dataframe

definition filtros_obrigatorios :: "dataframe \<Rightarrow> widgets \<Rightarrow> (aviso + obrigatorios) option" where
  "filtros_obrigatorios df_original ui =
     do {
       tipos \<leftarrow> opcoes df_original col_tipo;
       if tipos_selecionados ui = [] then Some (Inl SelecioneTipo)
       else do {
         df1 \<leftarrow> filtrar_isin df_original col_tipo (tipos_selecionados ui);
         fiscais \<leftarrow> opcoes df1 col_fiscal;
         if fiscais_selecionados ui \<noteq> [] then do {
           df2 \<leftarrow> filtrar_isin df1 col_fiscal (fiscais_selecionados ui);
           rpas \<leftarrow> opcoes df2 col_rpa;
           if rpas_selecionadas ui \<noteq> [] then do {
             df3 \<leftarrow> filtrar_isin df2 col_rpa (rpas_selecionadas ui);
             Some (Inr \<lparr>tipos_disponiveis = tipos, tipo_default = tipo_padrao tipos,
                        fiscais_disponiveis = fiscais, rpas_disponiveis = rpas,
                        df_obrigatorios = df3\<rparr>)
           } else Some (Inl SelecioneRPA)
         } else Some (Inl SelecioneFiscal)
       }
     }"

section \<open>The temporal filter (script lines 157 to 230)\<close>

text \<open>
  \<^verbatim>\<open>st.session_state\<close> holds three entries: a reference to the loaded table (for the
  reset callback) and the stored year and months. An absent key is \<open>None\<close>. The model
  records the writes the script itself performs on these entries.
\<close>

record session =
  df_original_available :: "nat option"
  fiscal_year_slider :: "int option"
  fiscal_month_multiselect :: "string list option"

fun the_timestamp :: "cell \<Rightarrow> int option" where
  "the_timestamp (Timestamp t) = Some t"
| "the_timestamp _ = None"

definition timestamps :: "cell list \<Rightarrow> int list option" where
  "timestamps xs = those (map the_timestamp xs)"

definition series_min :: "int list \<Rightarrow> int option" where
  "series_min ts = (case ts of [] \<Rightarrow> None | t # rest \<Rightarrow> Some (fold min rest t))"

definition series_max :: "int list \<Rightarrow> int option" where
  "series_max ts = (case ts of [] \<Rightarrow> None | t # rest \<Rightarrow> Some (fold max rest t))"

text \<open>Lines 168 to 171: the year stored when the session has none yet.\<close>

definition ano_inicial :: "dataframe \<Rightarrow> int \<Rightarrow> int option" where
  "ano_inicial df_original hoje =
     do {
       s \<leftarrow> getitem df_original col_uf;
       if dropna s \<noteq> [] then do {
         ts \<leftarrow> timestamps (dropna s);
         latest \<leftarrow> series_max ts;
         Some (ts_year latest)
       } else Some (date_year hoje)
     }"

text \<open>Lines 181 to 184.\<close>

definition clamp_year :: "int \<Rightarrow> int \<Rightarrow> int \<Rightarrow> int" where
  "clamp_year min_year max_year y =
     (if y < min_year then min_year else if y > max_year then max_year else y)"

text \<open>The \<^verbatim>\<open>.dt\<close> accessor exists on a column of dtype \<^verbatim>\<open>datetime64[ns]\<close> only.\<close>

definition dt_accessor :: "dataframe \<Rightarrow> string \<Rightarrow> cell list option" where
  "dt_accessor df name =
     do {
       i \<leftarrow> get_loc name (columns df);
       if snd (columns df ! i) = datetime64 then getitem df name else None
     }"

fun dt_year :: "cell \<Rightarrow> int option" where
  "dt_year (Timestamp t) = Some (ts_year t)"
| "dt_year _ = None"

fun dt_month :: "cell \<Rightarrow> int option" where
  "dt_month (Timestamp t) = Some (ts_month t)"
| "dt_month _ = None"

text \<open>
  The mask of lines 224 and 225: \<^verbatim>\<open>(dt.year == selected_year) & dt.month.isin(nums)\<close>.
  Year and month of a missing value are \<^verbatim>\<open>NaN\<close>, which equals no year and is in no list
  of month numbers.
\<close>

definition temporal_match :: "int \<Rightarrow> int list \<Rightarrow> cell \<Rightarrow> bool" where
  "temporal_match selected nums c =
     (dt_year c = Some selected \<and> (case dt_month c of None \<Rightarrow> False | Some m \<Rightarrow> m \<in> set nums))"

record temporal =
  anos_disponiveis :: "(int \<times> int) option"
  selected_year :: "int option"
  available_month_names :: "string list"
  default_months_for_multiselect :: "string list"
  df_temporal :: dataframe
  session_out :: session

definition filtro_temporal ::
  "dataframe \<Rightarrow> dataframe \<Rightarrow> int \<Rightarrow> widgets \<Rightarrow> session \<Rightarrow> temporal option" where
  "filtro_temporal df_original df hoje ui ss =
     do {
       s \<leftarrow> getitem df col_uf;
       stored \<leftarrow> (case fiscal_year_slider ss of
                    Some y \<Rightarrow> Some y
                  | None \<Rightarrow> ano_inicial df_original hoje);
       let meses = (case fiscal_month_multiselect ss of Some ms \<Rightarrow> ms | None \<Rightarrow> []);
       if dropna s \<noteq> [] then do {
         ts \<leftarrow> timestamps (dropna s);
         earliest \<leftarrow> series_min ts;
         latest \<leftarrow> series_max ts;
         let min_year = ts_year earliest;
         let max_year = ts_year latest;
         let clamped = clamp_year min_year max_year stored;
         let selected = (if min_year = max_year then min_year else year_slider ui);
         let stored' = (if min_year = max_year then selected else clamped);
         let months_in_selected_year =
               sort (remdups (map ts_month (filter (\<lambda>t. ts_year t = selected) ts)));
         available \<leftarrow> those (map (map_of month_names) months_in_selected_year);
         let kept = filter (\<lambda>m. m \<in> set available) meses;
         let default = (if kept = [] \<and> available \<noteq> [] then available else kept);
         let ss' = ss\<lparr>fiscal_year_slider := Some stored', fiscal_month_multiselect := Some meses\<rparr>;
         if available \<noteq> [] then do {
           nums \<leftarrow> those (map month_number (months_multiselect ui));
           dt \<leftarrow> dt_accessor df col_uf;
           Some \<lparr>anos_disponiveis = Some (min_year, max_year), selected_year = Some selected,
                 available_month_names = available, default_months_for_multiselect = default,
                 df_temporal = boolean_index df (map (temporal_match selected nums) dt),
                 session_out = ss'\<rparr>
         } else
           Some \<lparr>anos_disponiveis = Some (min_year, max_year), selected_year = Some selected,
                 available_month_names = available, default_months_for_multiselect = default,
                 df_temporal = df, session_out = ss'\<rparr>
       } else
         Some \<lparr>anos_disponiveis = None, selected_year = None,
               available_month_names = [], default_months_for_multiselect = [],
               df_temporal = df,
               session_out = ss\<lparr>fiscal_year_slider := Some stored,
                                fiscal_month_multiselect := Some meses\<rparr>\<rparr>
     }"

section \<open>Days since the last inspection (script lines 233 to 236)\<close>

text \<open>The lambda of line 235; \<^verbatim>\<open>x.date()\<close> exists on a time stamp only.\<close>

definition dias_lambda :: "int \<Rightarrow> cell \<Rightarrow> cell option" where
  "dias_lambda hoje x =
     (if notna x then (case x of Timestamp t \<Rightarrow> Some (Num (hoje - to_date t)) | _ \<Rightarrow> None)
      else Some PyNone)"

text \<open>
  \<^verbatim>\<open>Series.apply\<close> types its result: no result keeps the dtype of the input, integers
  only are \<^verbatim>\<open>int64\<close>, \<^verbatim>\<open>None\<close> only stays \<^verbatim>\<open>object\<close>, and integers mixed with \<^verbatim>\<open>None\<close>
  become \<^verbatim>\<open>float64\<close> with \<^verbatim>\<open>NaN\<close> for \<^verbatim>\<open>None\<close>.
\<close>

definition apply_result :: "dtype \<Rightarrow> cell list \<Rightarrow> dtype \<times> cell list" where
  "apply_result dt0 ys =
     (if ys = [] then (dt0, [])
      else if list_all (\<lambda>y. y = PyNone) ys then (object, ys)
      else if list_all (\<lambda>y. y \<noteq> PyNone) ys then (int64, ys)
      else (float64, map (\<lambda>y. if y = PyNone then NaN else y) ys))"

text \<open>
  \<^verbatim>\<open>df[name] = values\<close>, in place: an existing column is replaced where it stands, a new
  one is appended. The values must be as many as the rows.
\<close>

definition setitem :: "dataframe \<Rightarrow> string \<Rightarrow> dtype \<Rightarrow> cell list \<Rightarrow> dataframe option" where
  "setitem df name dt vals =
     (if length vals \<noteq> length (rows df) then None
      else case get_loc name (columns df) of
        Some i \<Rightarrow>
          Some \<lparr>columns = (columns df)[i := (name, dt)],
                rows = map (\<lambda>p. (fst (fst p), (snd (fst p))[i := snd p])) (zip (rows df) vals)\<rparr>
      | None \<Rightarrow>
          Some \<lparr>columns = columns df @ [(name, dt)],
                rows = map (\<lambda>p. (fst (fst p), snd (fst p) @ [snd p])) (zip (rows df) vals)\<rparr>)"

definition calcular_dias :: "int \<Rightarrow> dataframe \<Rightarrow> dataframe option" where
  "calcular_dias hoje df =
     do {
       i \<leftarrow> get_loc col_uf (columns df);
       s \<leftarrow> getitem df col_uf;
       ys \<leftarrow> those (map (dias_lambda hoje) s);
       setitem df col_dias (fst (apply_result (snd (columns df ! i)) ys))
                           (snd (apply_result (snd (columns df ! i)) ys))
     }"

section \<open>The alert table (script lines 346 to 360)\<close>

text \<open>
  The lambda of line 348, \<^verbatim>\<open>x > limit if x is not None else False\<close>. Comparing
  \<^verbatim>\<open>NaN\<close> with a number is false; comparing text or a time stamp with a number raises.
\<close>

definition alerta_lambda :: "int \<Rightarrow> cell \<Rightarrow> bool option" where
  "alerta_lambda limite x =
     (if x \<noteq> PyNone
      then (case x of Num n \<Rightarrow> Some (limite < n) | NaN \<Rightarrow> Some False | _ \<Rightarrow> None)
      else Some False)"

text \<open>
  Line 347, \<^verbatim>\<open>df[df[name].apply(...)]\<close>: the rows whose day count passes the lambda.
  The model keeps the columns of the table also when the table has no rows.
\<close>

definition alerta_visual :: "dataframe \<Rightarrow> int \<Rightarrow> dataframe option" where
  "alerta_visual df limite =
     do {
       s \<leftarrow> getitem df col_dias;
       keep \<leftarrow> those (map (alerta_lambda limite) s);
       Some (boolean_index df keep)
     }"

text \<open>
  \<^verbatim>\<open>sort_values(by=name, ascending=False)\<close>: pandas reverses the rows, sorts them in
  ascending order and reverses the result. Which of two rows with equal values comes
  first is left to the sorting routine of the library; the model uses a stable one.
\<close>

definition sort_values_desc :: "dataframe \<Rightarrow> string \<Rightarrow> dataframe option" where
  "sort_values_desc df name =
     do {
       i \<leftarrow> get_loc name (columns df);
       Some (df\<lparr>rows := rev (sort_key (\<lambda>r. cell_key (snd r ! i)) (rev (rows df)))\<rparr>)
     }"

text \<open>\<^verbatim>\<open>reset_index(drop=True)\<close> followed by \<^verbatim>\<open>index += 1\<close>.\<close>

definition reset_index :: "dataframe \<Rightarrow> dataframe" where
  "reset_index df = df\<lparr>rows := map (\<lambda>p. (int (fst p), snd (snd p))) (enumerate 0 (rows df))\<rparr>"

definition index_add :: "int \<Rightarrow> dataframe \<Rightarrow> dataframe" where
  "index_add k df = df\<lparr>rows := map (\<lambda>r. (fst r + k, snd r)) (rows df)\<rparr>"

text \<open>\<^verbatim>\<open>df[[names]]\<close>: the listed columns, in the listed order.\<close>

definition select_columns :: "dataframe \<Rightarrow> string list \<Rightarrow> dataframe option" where
  "select_columns df names =
     do {
       locs \<leftarrow> those (map (\<lambda>n. get_loc n (columns df)) names);
       Some \<lparr>columns = map (\<lambda>i. columns df ! i) locs,
             rows = map (\<lambda>r. (fst r, map (\<lambda>i. snd r ! i) locs)) (rows df)\<rparr>
     }"

definition colunas_alerta :: "string list" where
  "colunas_alerta =
     [''Id'', ''RPA'', ''Bairro'', ''Logradouro'', ''Trecho'', col_tipo, col_uf, col_dias]"

record alerta =
  df_alerta_visual :: dataframe
  df_alerta_ordenado :: "dataframe option"
  tabela_exibida :: "dataframe option"

definition tabela_alerta :: "dataframe \<Rightarrow> int \<Rightarrow> alerta option" where
  "tabela_alerta df limite =
     do {
       visual \<leftarrow> alerta_visual df limite;
       if rows visual \<noteq> [] then do {
         sorted_df \<leftarrow> sort_values_desc visual col_dias;
         let ordenado = index_add 1 (reset_index sorted_df);
         shown \<leftarrow> select_columns ordenado colunas_alerta;
         Some \<lparr>df_alerta_visual = visual, df_alerta_ordenado = Some ordenado,
               tabela_exibida = Some shown\<rparr>
       } else
         Some \<lparr>df_alerta_visual = visual, df_alerta_ordenado = None, tabela_exibida = None\<rparr>
     }"

section \<open>The exporter (script lines 50 to 80)\<close>

text \<open>
  Data frames are objects: the script holds references to them, and the exporter
  works on the object it is given. The heap maps a reference to the current value of
  the object.
\<close>

record world =
  heap :: "dataframe list"
  session_state :: session

fun strftime_cell :: "cell \<Rightarrow> cell" where
  "strftime_cell (Timestamp t) = Str (strftime_ymd t)"
| "strftime_cell _ = NaN"

text \<open>Line 55, for one column label.\<close>

definition strftime_column :: "string \<Rightarrow> dataframe \<Rightarrow> dataframe option" where
  "strftime_column col df =
     do { s \<leftarrow> dt_accessor df col; setitem df col object (map strftime_cell s) }"

text \<open>\<^verbatim>\<open>select_dtypes(include=['datetime64[ns]']).columns\<close>\<close>

definition datetime_columns :: "dataframe \<Rightarrow> string list" where
  "datetime_columns df = map fst (filter (\<lambda>c. snd c = datetime64) (columns df))"

fun for_each :: "('a \<Rightarrow> 's \<Rightarrow> 's option) \<Rightarrow> 'a list \<Rightarrow> 's \<Rightarrow> 's option" where
  "for_each body [] s = Some s"
| "for_each body (x # xs) s = (case body x s of None \<Rightarrow> None | Some s' \<Rightarrow> for_each body xs s')"

text \<open>
  \<^verbatim>\<open>astype(str)\<close> of a cell, by the dtype of its column. After the loop of line 54
  a time stamp is left in no column. A number of a \<^verbatim>\<open>float64\<close> column is written with
  its digits and \<^verbatim>\<open>.0\<close>, as Python does below \<^verbatim>\<open>1e16\<close>; identifiers and day counts
  are far below.
\<close>

definition astype_str :: "dtype \<Rightarrow> cell \<Rightarrow> string" where
  "astype_str dt c =
     (case c of
        Str s \<Rightarrow> s
      | Num n \<Rightarrow> (if dt = float64 then str_int n @ ''.0'' else str_int n)
      | Timestamp t \<Rightarrow> strftime_ymd t
      | NaN \<Rightarrow> ''nan''
      | PyNone \<Rightarrow> ''None''
      | NaT \<Rightarrow> ''NaT'')"

text \<open>
  Lines 73 to 76. The maximum of an empty column is \<^verbatim>\<open>NaN\<close>, and \<^verbatim>\<open>max(n, NaN)\<close> is
  \<open>n\<close>.
\<close>

definition max_len :: "string \<Rightarrow> dtype \<Rightarrow> cell list \<Rightarrow> nat" where
  "max_len col dt s =
     (case map (\<lambda>c. length (astype_str dt c)) s of
        [] \<Rightarrow> length col
      | n # ns \<Rightarrow> max (length col) (fold max ns n)) + 2"

text \<open>
  The spreadsheet library is outside the script. The written workbook is what the
  script hands to it: the sheet that \<^verbatim>\<open>to_excel(index=False)\<close> receives (header and
  cells, without the index) and the \<^verbatim>\<open>set_column\<close> calls in the order made.
\<close>

datatype cell_format = Center_VCenter

datatype set_column = Set_column nat nat "nat option" "cell_format option"

record workbook =
  sheet_header :: "string list"
  sheet_cells :: "cell list list"
  set_column_calls :: "set_column list"

definition column_calls :: "dataframe \<Rightarrow> nat \<Rightarrow> set_column list option" where
  "column_calls df i =
     do {
       s \<leftarrow> getitem df (fst (columns df ! i));
       Some [Set_column i i None (Some Center_VCenter),
             Set_column i i (Some (max_len (fst (columns df ! i)) (snd (columns df ! i)) s)) None]
     }"

definition download_excel_with_formatting :: "nat \<Rightarrow> world \<Rightarrow> (workbook \<times> world) option" where
  "download_excel_with_formatting df_to_export w =
     do {
       df \<leftarrow> for_each strftime_column (datetime_columns (heap w ! df_to_export))
                       (heap w ! df_to_export);
       calls \<leftarrow> those (map (column_calls df) [0 ..< length (columns df)]);
       Some (\<lparr>sheet_header = map fst (columns df), sheet_cells = map snd (rows df),
              set_column_calls = concat calls\<rparr>,
             w\<lparr>heap := (heap w)[df_to_export := df]\<rparr>)
     }"

section \<open>The script (lines 115 to 389)\<close>

text \<open>
  One run of the script on an uploaded file. The cached loader hands the script a fresh
  copy of the normalized table, \<open>loaded\<close>. The metrics and charts of lines 251 to 343
  only read the working table and draw; they are not part of the model.
\<close>

record painel =
  filtros :: obrigatorios
  tempo :: temporal
  df_final :: dataframe
  alertas :: alerta
  buffer_completo :: workbook
  buffer_filtrado :: workbook

datatype outcome = Stopped aviso | Rendered painel

definition main :: "dataframe \<Rightarrow> widgets \<Rightarrow> int \<Rightarrow> world \<Rightarrow> (outcome \<times> world) option" where
  "main loaded ui hoje w0 =
     (let df_original = length (heap w0);
          w1 = w0\<lparr>heap := heap w0 @ [loaded],
                  session_state := (session_state w0)\<lparr>df_original_available := Some df_original\<rparr>\<rparr>
      in do {
        f \<leftarrow> filtros_obrigatorios (heap w1 ! df_original) ui;
        case f of
          Inl warning \<Rightarrow> Some (Stopped warning, w1)
        | Inr ob \<Rightarrow> do {
            t \<leftarrow> filtro_temporal (heap w1 ! df_original) (df_obrigatorios ob) hoje ui
                   (session_state w1);
            df \<leftarrow> calcular_dias hoje (df_temporal t);
            a \<leftarrow> tabela_alerta df (alerta_dias_config ui);
            let w2 = w1\<lparr>heap := heap w1 @ [df], session_state := session_out t\<rparr>;
            (b1, w3) \<leftarrow> download_excel_with_formatting df_original w2;
            (b2, w4) \<leftarrow> download_excel_with_formatting (length (heap w1)) w3;
            Some (Rendered \<lparr>filtros = ob, tempo = t, df_final = df, alertas = a,
                            buffer_completo = b1, buffer_filtrado = b2\<rparr>, w4)
          }
      })"

section \<open>Reading a frame\<close>

text \<open>The cell of a row under a column label, and the shape every frame of pandas has.\<close>

definition cell_at :: "dataframe \<Rightarrow> string \<Rightarrow> int \<times> cell list \<Rightarrow> cell option" where
  "cell_at df name r = map_option (\<lambda>i. snd r ! i) (get_loc name (columns df))"

definition rectangular :: "dataframe \<Rightarrow> bool" where
  "rectangular df = list_all (\<lambda>r. length (snd r) = length (columns df)) (rows df)"

definition selected_in :: "dataframe \<Rightarrow> string \<Rightarrow> cell list \<Rightarrow> int \<times> cell list \<Rightarrow> bool" where
  "selected_in df name vals r =
     (case cell_at df name r of None \<Rightarrow> False | Some c \<Rightarrow> c \<in> set vals)"

text \<open>
  The rows of the working table a run of the script ends with, when the run reaches
  the panel.
\<close>

definition working_rows :: "(outcome \<times> world) option \<Rightarrow> (int \<times> cell list) list option" where
  "working_rows res =
     (case res of Some (Rendered p, w) \<Rightarrow> Some (rows (df_final p)) | _ \<Rightarrow> None)"

text \<open>A cell of a date column: a time stamp or a missing value.\<close>

fun date_or_missing :: "cell \<Rightarrow> bool" where
  "date_or_missing (Timestamp t) = True"
| "date_or_missing c = (\<not> notna c)"

section \<open>Example tables\<close>

definition ex_columns :: "(string \<times> dtype) list" where
  "ex_columns =
     [(''Id'', int64), (''RPA'', object), (''Bairro'', object), (''Logradouro'', object),
      (''Trecho'', object), (col_tipo, object), (col_fiscal, object),
      (''Data de Abertura'', datetime64), (col_uf, datetime64)]"

text \<open>
  Six services. Day 19721 is 2023-12-30, day 19787 is 2024-03-05, day 19833 is
  2024-04-20 and day 19875 is 2024-06-01. Two services were never inspected.
\<close>

definition ex_row0 :: "int \<times> cell list" where
  "ex_row0 = (0, [Num 101, Str ''RPA 1'', Str ''Centro'', Str ''Rua A'', Str ''T1'',
                  Str ''Buraco SIGA'', Str ''F1'', Timestamp (19733 * ns_per_day),
                  Timestamp (19787 * ns_per_day + 52200000000000)])"

definition ex_row1 :: "int \<times> cell list" where
  "ex_row1 = (1, [Num 102, Str ''RPA 2'', Str ''Norte'', Str ''Rua B'', Str ''T2'',
                  Str ''Poda'', Str ''F2'', Timestamp (19740 * ns_per_day), NaT])"

definition ex_row2 :: "int \<times> cell list" where
  "ex_row2 = (2, [Num 103, Str ''RPA 1'', Str ''Centro'', Str ''Rua C'', Str ''T3'',
                  Str ''Buraco SIGA'', Str ''F1'', NaT, Timestamp (19787 * ns_per_day)])"

definition ex_row3 :: "int \<times> cell list" where
  "ex_row3 = (3, [Num 104, Str ''RPA 1'', Str ''Sul'', Str ''Rua D'', Str ''T4'',
                  Str ''Buraco SIGA'', Str ''F1'', Timestamp (19750 * ns_per_day),
                  Timestamp (19833 * ns_per_day)])"

definition ex_row4 :: "int \<times> cell list" where
  "ex_row4 = (4, [Num 105, Str ''RPA 1'', Str ''Sul'', Str ''Rua E'', Str ''T5'',
                  Str ''Buraco SIGA'', Str ''F1'', Timestamp (19751 * ns_per_day), NaT])"

definition ex_row5 :: "int \<times> cell list" where
  "ex_row5 = (5, [Num 106, Str ''RPA 1'', Str ''Sul'', Str ''Rua F'', Str ''T6'',
                  Str ''Buraco SIGA'', Str ''F1'', Timestamp (19700 * ns_per_day),
                  Timestamp (19721 * ns_per_day)])"

definition ex_full :: dataframe where
  "ex_full = \<lparr>columns = ex_columns,
              rows = [ex_row0, ex_row1, ex_row2, ex_row3, ex_row4, ex_row5]\<rparr>"

definition ex_ui :: widgets where
  "ex_ui =
     \<lparr>tipos_selecionados = [Str ''Buraco SIGA''], fiscais_selecionados = [Str ''F1''],
      rpas_selecionadas = [Str ''RPA 1''], year_slider = 2024,
      months_multiselect = [''Mar'' @ [CHR 0xE7] @ ''o'', ''Abril''], alerta_dias_config = 50\<rparr>"

definition ex_hoje :: int where
  "ex_hoje = 19875"

definition ex_world :: world where
  "ex_world =
     \<lparr>heap = [],
      session_state = \<lparr>df_original_available = None, fiscal_year_slider = None,
                       fiscal_month_multiselect = None\<rparr>\<rparr>"

definition ex_session :: session where
  "ex_session = \<lparr>df_original_available = None, fiscal_year_slider = None,
                  fiscal_month_multiselect = None\<rparr>"

text \<open>What the run on the example computes, stage by stage.\<close>

definition ex_filtered :: dataframe where
  "ex_filtered = \<lparr>columns = ex_columns, rows = [ex_row0, ex_row2, ex_row3, ex_row4, ex_row5]\<rparr>"

definition ex_working :: dataframe where
  "ex_working = \<lparr>columns = ex_columns, rows = [ex_row0, ex_row2, ex_row3]\<rparr>"

definition ex_ob :: obrigatorios where
  "ex_ob = \<lparr>tipos_disponiveis = [Str ''Buraco SIGA'', Str ''Poda''],
            tipo_default = [Str ''Buraco SIGA''], fiscais_disponiveis = [Str ''F1''],
            rpas_disponiveis = [Str ''RPA 1''], df_obrigatorios = ex_filtered\<rparr>"

definition ex_t :: temporal where
  "ex_t = \<lparr>anos_disponiveis = Some (2023, 2024), selected_year = Some 2024,
           available_month_names = [''Mar'' @ [CHR 0xE7] @ ''o'', ''Abril''],
           default_months_for_multiselect = [''Mar'' @ [CHR 0xE7] @ ''o'', ''Abril''],
           df_temporal = ex_working,
           session_out = \<lparr>df_original_available = None, fiscal_year_slider = Some 2024,
                           fiscal_month_multiselect = Some []\<rparr>\<rparr>"

text \<open>
  Two services of one type, inspected on 2020-01-01 (day 18262) and on 2022-01-08
  (day 19000), with the year slider on 2021; on 2024-06-01 they count 1613 and 875
  days.
\<close>

definition cx_row0 :: "int \<times> cell list" where
  "cx_row0 = (0, [Num 201, Str ''RPA 1'', Str ''Centro'', Str ''Rua A'', Str ''T1'',
                  Str ''Poda'', Str ''F1'', Timestamp (18250 * ns_per_day),
                  Timestamp (18262 * ns_per_day)])"

definition cx_row1 :: "int \<times> cell list" where
  "cx_row1 = (1, [Num 202, Str ''RPA 1'', Str ''Norte'', Str ''Rua B'', Str ''T2'',
                  Str ''Poda'', Str ''F1'', Timestamp (18990 * ns_per_day),
                  Timestamp (19000 * ns_per_day)])"

definition cx_full :: dataframe where
  "cx_full = \<lparr>columns = ex_columns, rows = [cx_row0, cx_row1]\<rparr>"

definition cx_ui :: widgets where
  "cx_ui =
     \<lparr>tipos_selecionados = [Str ''Poda''], fiscais_selecionados = [Str ''F1''],
      rpas_selecionadas = [Str ''RPA 1''], year_slider = 2021,
      months_multiselect = [''Janeiro''], alerta_dias_config = 30\<rparr>"

definition cx_ob :: obrigatorios where
  "cx_ob = \<lparr>tipos_disponiveis = [Str ''Poda''], tipo_default = [Str ''Poda''],
            fiscais_disponiveis = [Str ''F1''], rpas_disponiveis = [Str ''RPA 1''],
            df_obrigatorios = cx_full\<rparr>"

definition cx_t :: temporal where
  "cx_t = \<lparr>anos_disponiveis = Some (2020, 2022), selected_year = Some 2021,
           available_month_names = [], default_months_for_multiselect = [],
           df_temporal = cx_full,
           session_out = \<lparr>df_original_available = None, fiscal_year_slider = Some 2022,
                           fiscal_month_multiselect = Some []\<rparr>\<rparr>"

text \<open>A loaded table whose one service was never inspected.\<close>

definition cx_missing_row :: "int \<times> cell list" where
  "cx_missing_row = (0, [Num 301, Str ''RPA 1'', Str ''Sul'', Str ''Rua E'', Str ''T5'',
                         Str ''Buraco SIGA'', Str ''F1'', Timestamp (19751 * ns_per_day), NaT])"

definition cx_missing :: dataframe where
  "cx_missing = \<lparr>columns = ex_columns, rows = [cx_missing_row]\<rparr>"

definition cx_missing_ob :: obrigatorios where
  "cx_missing_ob =
     \<lparr>tipos_disponiveis = [Str ''Buraco SIGA''], tipo_default = [Str ''Buraco SIGA''],
      fiscais_disponiveis = [Str ''F1''], rpas_disponiveis = [Str ''RPA 1''],
      df_obrigatorios = cx_missing\<rparr>"

definition cx_missing_t :: temporal where
  "cx_missing_t = \<lparr>anos_disponiveis = None, selected_year = None,
           available_month_names = [], default_months_for_multiselect = [],
           df_temporal = cx_missing,
           session_out = \<lparr>df_original_available = None, fiscal_year_slider = Some 2024,
                           fiscal_month_multiselect = Some []\<rparr>\<rparr>"

text \<open>The filtered example with the computed column, on 2024-06-01.\<close>

definition ex_filtered_dias :: dataframe where
  "ex_filtered_dias =
     \<lparr>columns = ex_columns @ [(col_dias, float64)],
      rows = [(0, snd ex_row0 @ [Num 88]), (2, snd ex_row2 @ [Num 88]),
              (3, snd ex_row3 @ [Num 42]), (4, snd ex_row4 @ [NaN]),
              (5, snd ex_row5 @ [Num 154])]\<rparr>"

text \<open>The working table of the example run, and its alerts above 50 days.\<close>

definition ex_working_dias :: dataframe where
  "ex_working_dias =
     \<lparr>columns = ex_columns @ [(col_dias, int64)],
      rows = [(0, snd ex_row0 @ [Num 88]), (2, snd ex_row2 @ [Num 88]),
              (3, snd ex_row3 @ [Num 42])]\<rparr>"

definition ex_visual :: dataframe where
  "ex_visual =
     \<lparr>columns = ex_columns @ [(col_dias, int64)],
      rows = [(0, snd ex_row0 @ [Num 88]), (2, snd ex_row2 @ [Num 88])]\<rparr>"

definition ex_ordenado :: dataframe where
  "ex_ordenado =
     \<lparr>columns = ex_columns @ [(col_dias, int64)],
      rows = [(1, snd ex_row0 @ [Num 88]), (2, snd ex_row2 @ [Num 88])]\<rparr>"

definition ex_exibida :: dataframe where
  "ex_exibida =
     \<lparr>columns = [(''Id'', int64), (''RPA'', object), (''Bairro'', object),
                 (''Logradouro'', object), (''Trecho'', object), (col_tipo, object),
                 (col_uf, datetime64), (col_dias, int64)],
      rows = [(1, [Num 101, Str ''RPA 1'', Str ''Centro'', Str ''Rua A'', Str ''T1'',
                   Str ''Buraco SIGA'', Timestamp (19787 * ns_per_day + 52200000000000),
                   Num 88]),
              (2, [Num 103, Str ''RPA 1'', Str ''Centro'', Str ''Rua C'', Str ''T3'',
                   Str ''Buraco SIGA'', Timestamp (19787 * ns_per_day), Num 88])]\<rparr>"

definition ex_alerta :: alerta where
  "ex_alerta = \<lparr>df_alerta_visual = ex_visual, df_alerta_ordenado = Some ex_ordenado,
                tabela_exibida = Some ex_exibida\<rparr>"

section \<open>What the exporter writes\<close>

text \<open>
  The frame with every column of dtype \<^verbatim>\<open>datetime64[ns]\<close> turned into plain date text,
  column by column in place; \<open>rendered D\<close> is the frame when the columns labelled in
  \<open>D\<close> have been turned so far.
\<close>

definition exported :: "dataframe \<Rightarrow> dataframe" where
  "exported df =
     \<lparr>columns = map (\<lambda>c. if snd c = datetime64 then (fst c, object) else c) (columns df),
      rows = map (\<lambda>r. (fst r, map (\<lambda>p. if snd (fst p) = datetime64 then strftime_cell (snd p)
                                         else snd p)
                                   (zip (columns df) (snd r)))) (rows df)\<rparr>"

definition rendered :: "string set \<Rightarrow> dataframe \<Rightarrow> dataframe" where
  "rendered D df =
     \<lparr>columns = map (\<lambda>c. if fst c \<in> D then (fst c, object) else c) (columns df),
      rows = map (\<lambda>r. (fst r, map (\<lambda>p. if fst (fst p) \<in> D then strftime_cell (snd p) else snd p)
                                   (zip (columns df) (snd r)))) (rows df)\<rparr>"

text \<open>
  What the spreadsheet library keeps of the \<^verbatim>\<open>set_column\<close> calls: one record per
  column, holding the width and the format of the latest call that covers the column.
  A call stores both together, so a call without a format leaves the column without
  one.
\<close>

fun covers :: "nat \<Rightarrow> set_column \<Rightarrow> bool" where
  "covers j (Set_column first_col last_col width fmt) = (first_col \<le> j \<and> j \<le> last_col)"

definition col_info :: "set_column list \<Rightarrow> nat \<Rightarrow> (nat option \<times> cell_format option) option" where
  "col_info calls j =
     (case rev (filter (covers j) calls) of
        [] \<Rightarrow> None
      | Set_column first_col last_col width fmt # _ \<Rightarrow> Some (width, fmt))"

text \<open>The loaded example after it has been exported, and the workbook written.\<close>

definition ex_exported :: dataframe where
  "ex_exported =
     \<lparr>columns = [(''Id'', int64), (''RPA'', object), (''Bairro'', object),
                 (''Logradouro'', object), (''Trecho'', object), (col_tipo, object),
                 (col_fiscal, object), (''Data de Abertura'', object), (col_uf, object)],
      rows = [(0, take 7 (snd ex_row0) @ [Str ''2024-01-11'', Str ''2024-03-05'']),
              (1, take 7 (snd ex_row1) @ [Str ''2024-01-18'', NaN]),
              (2, take 7 (snd ex_row2) @ [NaN, Str ''2024-03-05'']),
              (3, take 7 (snd ex_row3) @ [Str ''2024-01-28'', Str ''2024-04-20'']),
              (4, take 7 (snd ex_row4) @ [Str ''2024-01-29'', NaN]),
              (5, take 7 (snd ex_row5) @ [Str ''2023-12-09'', Str ''2023-12-30''])]\<rparr>"

definition ex_book :: workbook where
  "ex_book =
     \<lparr>sheet_header = map fst ex_columns,
      sheet_cells = map snd (rows ex_exported),
      set_column_calls =
        [Set_column 0 0 None (Some Center_VCenter), Set_column 0 0 (Some 5) None,
         Set_column 1 1 None (Some Center_VCenter), Set_column 1 1 (Some 7) None,
         Set_column 2 2 None (Some Center_VCenter), Set_column 2 2 (Some 8) None,
         Set_column 3 3 None (Some Center_VCenter), Set_column 3 3 (Some 12) None,
         Set_column 4 4 None (Some Center_VCenter), Set_column 4 4 (Some 8) None,
         Set_column 5 5 None (Some Center_VCenter), Set_column 5 5 (Some 17) None,
         Set_column 6 6 None (Some Center_VCenter), Set_column 6 6 (Some 8) None,
         Set_column 7 7 None (Some Center_VCenter), Set_column 7 7 (Some 18) None,
         Set_column 8 8 None (Some Center_VCenter), Set_column 8 8 (Some 21) None]\<rparr>"

section \<open>The script, piece by piece\<close>

text \<open>
  The world once the script has taken the loaded table and stored a reference to it
  (lines 117 to 120); the temporal filter without its writes to the session state; and
  the year those writes leave in the session state (lines 181 to 189).
\<close>

definition after_load :: "dataframe \<Rightarrow> world \<Rightarrow> world" where
  "after_load loaded w =
     w\<lparr>heap := heap w @ [loaded],
       session_state := (session_state w)\<lparr>df_original_available := Some (length (heap w))\<rparr>\<rparr>"

definition no_session :: session where
  "no_session = \<lparr>df_original_available = None, fiscal_year_slider = None,
                 fiscal_month_multiselect = None\<rparr>"

definition temporal_core :: "dataframe \<Rightarrow> widgets \<Rightarrow> string list \<Rightarrow> cell list \<Rightarrow> temporal option" where
  "temporal_core df ui meses s =
     (if dropna s \<noteq> [] then do {
         ts \<leftarrow> timestamps (dropna s);
         earliest \<leftarrow> series_min ts;
         latest \<leftarrow> series_max ts;
         let min_year = ts_year earliest;
         let max_year = ts_year latest;
         let selected = (if min_year = max_year then min_year else year_slider ui);
         let months_in_selected_year =
               sort (remdups (map ts_month (filter (\<lambda>t. ts_year t = selected) ts)));
         available \<leftarrow> those (map (map_of month_names) months_in_selected_year);
         let kept = filter (\<lambda>m. m \<in> set available) meses;
         let default = (if kept = [] \<and> available \<noteq> [] then available else kept);
         if available \<noteq> [] then do {
           nums \<leftarrow> those (map month_number (months_multiselect ui));
           dt \<leftarrow> dt_accessor df col_uf;
           Some \<lparr>anos_disponiveis = Some (min_year, max_year), selected_year = Some selected,
                 available_month_names = available, default_months_for_multiselect = default,
                 df_temporal = boolean_index df (map (temporal_match selected nums) dt),
                 session_out = no_session\<rparr>
         } else
           Some \<lparr>anos_disponiveis = Some (min_year, max_year), selected_year = Some selected,
                 available_month_names = available, default_months_for_multiselect = default,
                 df_temporal = df, session_out = no_session\<rparr>
       } else
         Some \<lparr>anos_disponiveis = None, selected_year = None,
               available_month_names = [], default_months_for_multiselect = [],
               df_temporal = df, session_out = no_session\<rparr>)"

definition ano_armazenado :: "(int \<times> int) option \<Rightarrow> int \<Rightarrow> int" where
  "ano_armazenado anos stored =
     (case anos of
        None \<Rightarrow> stored
      | Some (min_year, max_year) \<Rightarrow>
          if min_year = max_year then min_year else clamp_year min_year max_year stored)"

text \<open>The months the session state holds when the script reads them (line 173).\<close>

definition meses_armazenados :: "session \<Rightarrow> string list" where
  "meses_armazenados ss = (case fiscal_month_multiselect ss of Some ms \<Rightarrow> ms | None \<Rightarrow> [])"

text \<open>The valid last-inspection dates of a frame.\<close>

definition valid_dates :: "dataframe \<Rightarrow> int set" where
  "valid_dates df = {ts. \<exists>r \<in> set (rows df). cell_at df col_uf r = Some (Timestamp ts)}"

section \<open>Basic facts about frames\<close>

lemma filter_zip_map: "map fst (filter snd (zip xs (map g xs))) = filter g xs"
  by (induction xs) auto

lemma get_loc_Some: "get_loc k cs = Some i \<Longrightarrow> i < length cs \<and> fst (cs ! i) = k"
  by (induction cs arbitrary: i) (auto split: if_splits)

lemma get_loc_None: "get_loc k cs = None \<longleftrightarrow> k \<notin> fst ` set cs"
  by (induction cs) auto

lemma cell_at_cong: "columns df' = columns df \<Longrightarrow> cell_at df' = cell_at df"
  by (auto simp: cell_at_def fun_eq_iff)

lemma filtrar_isin_Some:
  assumes "filtrar_isin df name vals = Some df'"
  shows "columns df' = columns df"
    and "rows df' = filter (\<lambda>r. \<exists>c. cell_at df name r = Some c \<and> c \<in> set vals) (rows df)"
proof -
  from assms obtain i where i: "get_loc name (columns df) = Some i"
    and df': "df' = boolean_index df (map (\<lambda>c. isin c vals) (map (\<lambda>r. snd r ! i) (rows df)))"
    by (auto simp: filtrar_isin_def getitem_def split: Option.bind_splits)
  show "columns df' = columns df" by (simp add: df' boolean_index_def)
  have "rows df' = filter (\<lambda>r. isin (snd r ! i) vals) (rows df)"
    using filter_zip_map[where g = "\<lambda>r. isin (snd r ! i) vals" and xs = "rows df"]
    by (simp add: df' boolean_index_def comp_def)
  then show "rows df' = filter (\<lambda>r. \<exists>c. cell_at df name r = Some c \<and> c \<in> set vals) (rows df)"
    by (simp add: cell_at_def i isin_def)
qed

lemma unique_set [simp]: "set (unique xs) = set xs"
  by (simp add: unique_def)

lemma unique_distinct [simp]: "distinct (unique xs)"
  by (simp add: unique_def)

lemma cell_key_inj: "cell_key a = cell_key b \<Longrightarrow> a = b"
  by (cases a; cases b) auto

lemma py_sorted_Some:
  assumes "py_sorted xs = Some ys"
  shows "set ys = set xs" "sorted (map cell_key ys)" "distinct xs \<Longrightarrow> distinct ys"
proof -
  from assms have "ys = sort_key cell_key xs"
    by (cases xs) (auto simp: py_sorted_def split: if_splits)
  then show "set ys = set xs" "sorted (map cell_key ys)" "distinct xs \<Longrightarrow> distinct ys"
    by simp_all
qed

lemma opcoes_Some:
  assumes "opcoes df name = Some ys"
  shows "set ys = {c. notna c \<and> (\<exists>r \<in> set (rows df). cell_at df name r = Some c)}"
    and "sorted (map cell_key ys)" and "distinct ys"
proof -
  from assms obtain s where s: "getitem df name = Some s"
    and p: "py_sorted (unique (dropna s)) = Some ys"
    by (auto simp: opcoes_def split: Option.bind_splits)
  from s obtain i where i: "get_loc name (columns df) = Some i"
    and s': "s = map (\<lambda>r. snd r ! i) (rows df)"
    by (auto simp: getitem_def)
  from py_sorted_Some[OF p] show "sorted (map cell_key ys)" "distinct ys" by simp_all
  from py_sorted_Some(1)[OF p]
  show "set ys = {c. notna c \<and> (\<exists>r \<in> set (rows df). cell_at df name r = Some c)}"
    by (auto simp: dropna_def s' cell_at_def i)
qed

lemma selected_in_iff: "selected_in df name vals r \<longleftrightarrow> (\<exists>c. cell_at df name r = Some c \<and> c \<in> set vals)"
  by (auto simp: selected_in_def split: option.splits)

lemma filtros_obrigatorios_Inr:
  assumes "filtros_obrigatorios T ui = Some (Inr ob)"
  shows "tipos_selecionados ui \<noteq> [] \<and> fiscais_selecionados ui \<noteq> [] \<and> rpas_selecionadas ui \<noteq> []"
    and "\<exists>df1 df2. opcoes T col_tipo = Some (tipos_disponiveis ob)
          \<and> filtrar_isin T col_tipo (tipos_selecionados ui) = Some df1
          \<and> opcoes df1 col_fiscal = Some (fiscais_disponiveis ob)
          \<and> filtrar_isin df1 col_fiscal (fiscais_selecionados ui) = Some df2
          \<and> opcoes df2 col_rpa = Some (rpas_disponiveis ob)
          \<and> filtrar_isin df2 col_rpa (rpas_selecionadas ui) = Some (df_obrigatorios ob)"
  using assms
  by (auto simp: filtros_obrigatorios_def split: Option.bind_splits if_splits)

lemma filtros_obrigatorios_rows:
  assumes "filtros_obrigatorios T ui = Some (Inr ob)"
  shows "columns (df_obrigatorios ob) = columns T"
    and "rows (df_obrigatorios ob) =
          filter (\<lambda>r. selected_in T col_tipo (tipos_selecionados ui) r
                    \<and> selected_in T col_fiscal (fiscais_selecionados ui) r
                    \<and> selected_in T col_rpa (rpas_selecionadas ui) r) (rows T)"
proof -
  from filtros_obrigatorios_Inr(2)[OF assms] obtain df1 df2 where
    a: "filtrar_isin T col_tipo (tipos_selecionados ui) = Some df1"
    and b: "filtrar_isin df1 col_fiscal (fiscais_selecionados ui) = Some df2"
    and c: "filtrar_isin df2 col_rpa (rpas_selecionadas ui) = Some (df_obrigatorios ob)"
    by blast
  note A = filtrar_isin_Some[OF a] and B = filtrar_isin_Some[OF b] and C = filtrar_isin_Some[OF c]
  show "columns (df_obrigatorios ob) = columns T" by (simp add: A B C)
  have c1: "cell_at df1 = cell_at T" by (rule cell_at_cong) (simp add: A)
  have c2: "cell_at df2 = cell_at T" by (rule cell_at_cong) (simp add: A B)
  show "rows (df_obrigatorios ob) =
          filter (\<lambda>r. selected_in T col_tipo (tipos_selecionados ui) r
                    \<and> selected_in T col_fiscal (fiscais_selecionados ui) r
                    \<and> selected_in T col_rpa (rpas_selecionadas ui) r) (rows T)"
    unfolding C(2) B(2) A(2) c1 c2 selected_in_iff
    by (auto intro: filter_cong)
qed

lemma dt_accessor_Some:
  "dt_accessor df name = Some s \<Longrightarrow> getitem df name = Some s"
  by (auto simp: dt_accessor_def split: Option.bind_splits if_splits)

lemma filtro_temporal_Some:
  assumes "filtro_temporal T0 df hoje ui ss = Some t"
  shows "columns (df_temporal t) = columns df"
    and "available_month_names t = [] \<Longrightarrow> df_temporal t = df"
    and "available_month_names t \<noteq> [] \<Longrightarrow>
          \<exists>y nums. selected_year t = Some y
            \<and> those (map month_number (months_multiselect ui)) = Some nums
            \<and> rows (df_temporal t) =
                filter (\<lambda>r. case cell_at df col_uf r of None \<Rightarrow> False
                            | Some c \<Rightarrow> temporal_match y nums c) (rows df)"
proof -
  show "columns (df_temporal t) = columns df"
    using assms
    by (auto simp: filtro_temporal_def Let_def boolean_index_def split: Option.bind_splits if_splits)
  show "available_month_names t = [] \<Longrightarrow> df_temporal t = df"
    using assms
    by (auto simp: filtro_temporal_def Let_def split: Option.bind_splits if_splits)
  assume "available_month_names t \<noteq> []"
  with assms show "\<exists>y nums. selected_year t = Some y
            \<and> those (map month_number (months_multiselect ui)) = Some nums
            \<and> rows (df_temporal t) =
                filter (\<lambda>r. case cell_at df col_uf r of None \<Rightarrow> False
                            | Some c \<Rightarrow> temporal_match y nums c) (rows df)"
    apply (auto simp: filtro_temporal_def Let_def split: Option.bind_splits if_splits dest!: dt_accessor_Some)
     apply (auto simp: getitem_def boolean_index_def cell_at_def comp_def filter_zip_map[where g = "\<lambda>r. temporal_match y nums (snd r ! i)" for y nums i, simplified comp_def])
    done
qed

lemma those_map_Some: "those (map f xs) = Some ys \<longleftrightarrow> map f xs = map Some ys"
proof (induction xs arbitrary: ys)
  case Nil
  then show ?case by auto
next
  case (Cons x xs)
  then show ?case by (cases "f x"; cases ys) (auto split: option.splits)
qed

lemma temporal_match_Timestamp:
  "temporal_match y nums c \<longleftrightarrow> (\<exists>ts. c = Timestamp ts \<and> ts_year ts = y \<and> ts_month ts \<in> set nums)"
  by (cases c) (auto simp: temporal_match_def)

lemma get_loc_update_other:
  "get_loc k cs = Some i \<Longrightarrow> k' \<noteq> k \<Longrightarrow> get_loc k' (cs[i := (k, d)]) = get_loc k' cs"
proof (induction cs arbitrary: i)
  case Nil
  then show ?case by simp
next
  case (Cons c cs)
  then show ?case by (cases i) (auto split: if_splits)
qed

lemma get_loc_update_same:
  "get_loc k cs = Some i \<Longrightarrow> get_loc k (cs[i := (k, d)]) = Some i"
proof (induction cs arbitrary: i)
  case Nil
  then show ?case by simp
next
  case (Cons c cs)
  then show ?case by (cases i) (auto split: if_splits)
qed

lemma get_loc_append_new:
  "get_loc k cs = None \<Longrightarrow> get_loc k (cs @ [(k, d)]) = Some (length cs)"
  by (induction cs) auto

lemma get_loc_append_old:
  "get_loc k' cs = Some i \<Longrightarrow> get_loc k' (cs @ [c]) = Some i"
  by (induction cs arbitrary: i) (auto split: if_splits)

lemma col_dias_neq_uf: "col_dias \<noteq> col_uf"
  by (simp add: col_dias_def col_uf_def)

lemma apply_result_length [simp]: "length (snd (apply_result dt ys)) = length ys"
  by (simp add: apply_result_def)

lemma apply_result_nth:
  assumes "k < length ys"
  shows "(notna (snd (apply_result dt ys) ! k) \<longleftrightarrow> ys ! k \<noteq> PyNone \<and> notna (ys ! k))
       \<and> (ys ! k \<noteq> PyNone \<longrightarrow> snd (apply_result dt ys) ! k = ys ! k)"
  using assms by (auto simp: apply_result_def)

lemma dias_lambda_Some:
  "dias_lambda hoje x = Some y \<Longrightarrow>
     (\<not> notna x \<and> y = PyNone) \<or> (\<exists>ts. x = Timestamp ts \<and> y = Num (hoje - to_date ts))"
  by (cases x) (auto simp: dias_lambda_def)

lemma setitem_rows:
  assumes "setitem df name dt vals = Some df'"
  shows "length (rows df') = length (rows df)" "length vals = length (rows df)"
  using assms by (auto simp: setitem_def split: if_splits option.splits)

lemma alerta_lambda_Some:
  "alerta_lambda limite x = Some b \<Longrightarrow> b \<longleftrightarrow> (\<exists>n. x = Num n \<and> limite < n)"
  by (cases x) (auto simp: alerta_lambda_def)

lemma filter_zip_those:
  "map f xs = map Some bs \<Longrightarrow> map fst (filter snd (zip xs bs)) = filter (\<lambda>x. f x = Some True) xs"
proof (induction xs arbitrary: bs)
  case Nil
  then show ?case by simp
next
  case (Cons x xs)
  then show ?case by (cases bs) auto
qed

lemma alerta_visual_Some:
  assumes "alerta_visual df limite = Some v"
  shows "columns v = columns df"
    and "rows v = filter (\<lambda>r. \<exists>n. cell_at df col_dias r = Some (Num n) \<and> limite < n) (rows df)"
proof -
  from assms obtain i keep where i: "get_loc col_dias (columns df) = Some i"
    and k: "those (map (alerta_lambda limite) (map (\<lambda>r. snd r ! i) (rows df))) = Some keep"
    and v: "v = boolean_index df keep"
    by (auto simp: alerta_visual_def getitem_def split: Option.bind_splits)
  show "columns v = columns df" by (simp add: v boolean_index_def)
  from k have m: "map (\<lambda>r. alerta_lambda limite (snd r ! i)) (rows df) = map Some keep"
    by (simp add: those_map_Some comp_def)
  have "rows v = filter (\<lambda>r. alerta_lambda limite (snd r ! i) = Some True) (rows df)"
    using filter_zip_those[OF m] by (simp add: v boolean_index_def)
  also have "\<dots> = filter (\<lambda>r. \<exists>n. cell_at df col_dias r = Some (Num n) \<and> limite < n) (rows df)"
  proof (rule filter_cong[OF refl])
    fix r assume "r \<in> set (rows df)"
    then have "alerta_lambda limite (snd r ! i) \<in> set (map Some keep)"
      using m by (metis (no_types, lifting) image_eqI list.set_map)
    then obtain b where b: "alerta_lambda limite (snd r ! i) = Some b" by auto
    from alerta_lambda_Some[OF b] b
    show "(alerta_lambda limite (snd r ! i) = Some True)
          = (\<exists>n. cell_at df col_dias r = Some (Num n) \<and> limite < n)"
      by (auto simp: cell_at_def i)
  qed
  finally show "rows v = filter (\<lambda>r. \<exists>n. cell_at df col_dias r = Some (Num n) \<and> limite < n) (rows df)" .
qed

lemma cell_key_Num_le [simp]: "cell_key (Num a) \<le> cell_key (Num b) \<longleftrightarrow> a \<le> b"
  by auto

lemma sort_values_desc_Some:
  assumes "sort_values_desc df name = Some o'"
  shows "columns o' = columns df"
    and "mset (rows o') = mset (rows df)"
    and "\<exists>i. get_loc name (columns df) = Some i \<and> sorted (rev (map (\<lambda>r. cell_key (snd r ! i)) (rows o')))"
proof -
  from assms obtain i where i: "get_loc name (columns df) = Some i"
    and o: "o' = df\<lparr>rows := rev (sort_key (\<lambda>r. cell_key (snd r ! i)) (rev (rows df)))\<rparr>"
    by (auto simp: sort_values_desc_def split: Option.bind_splits)
  show "columns o' = columns df" by (simp add: o)
  show "mset (rows o') = mset (rows df)" by (simp add: o)
  have "sorted (map (\<lambda>r. cell_key (snd r ! i)) (sort_key (\<lambda>r. cell_key (snd r ! i)) (rev (rows df))))"
    by (rule sorted_sort_key)
  then show "\<exists>i. get_loc name (columns df) = Some i \<and> sorted (rev (map (\<lambda>r. cell_key (snd r ! i)) (rows o')))"
    using i by (auto simp: o rev_map)
qed

lemma map_snd_enum: "map (\<lambda>p. f (snd p)) (zip [0 ..< length xs] xs) = map f xs"
proof -
  have "length ys = length zs \<Longrightarrow> map (\<lambda>p. f (snd p)) (zip ys zs) = map f zs"
    for ys :: "nat list" and zs
    by (induction ys zs rule: list_induct2) auto
  then show ?thesis by simp
qed

lemma map_fst_enum: "map (\<lambda>p. g (fst p)) (zip [0 ..< length xs] xs) = map g [0 ..< length xs]"
proof -
  have "length ys = length zs \<Longrightarrow> map (\<lambda>p. g (fst p)) (zip ys zs) = map g ys"
    for ys :: "nat list" and zs :: "'b list"
    by (induction ys zs rule: list_induct2) auto
  from this[of "[0 ..< length xs]" xs] show ?thesis by simp
qed

lemma reset_index_rows:
  "map snd (rows (index_add 1 (reset_index df))) = map snd (rows df)"
  "map fst (rows (index_add 1 (reset_index df))) = map int [1 ..< Suc (length (rows df))]"
proof -
  show "map snd (rows (index_add 1 (reset_index df))) = map snd (rows df)"
    using map_snd_enum[where f = snd and xs = "rows df"]
    by (simp add: index_add_def reset_index_def comp_def enumerate_eq_zip)
  have "map fst (rows (index_add 1 (reset_index df))) = map (\<lambda>k. int k + 1) [0 ..< length (rows df)]"
    using map_fst_enum[where g = "\<lambda>k. int k + 1" and xs = "rows df"]
    by (simp add: index_add_def reset_index_def comp_def enumerate_eq_zip)
  also have "\<dots> = map int (map Suc [0 ..< length (rows df)])" by simp
  also have "\<dots> = map int [1 ..< Suc (length (rows df))]"
    by (simp only: map_Suc_upt One_nat_def)
  finally show "map fst (rows (index_add 1 (reset_index df))) = map int [1 ..< Suc (length (rows df))]" .
qed


lemma sorted_cell_key_Num: "sorted (map (\<lambda>n. cell_key (Num n)) ns) = sorted ns"
  by (induction ns) auto

lemma select_columns_Some:
  assumes "select_columns df names = Some shown"
  shows "map fst (columns shown) = names" and "map fst (rows shown) = map fst (rows df)"
proof -
  from assms obtain locs where l: "those (map (\<lambda>n. get_loc n (columns df)) names) = Some locs"
    and sh: "shown = \<lparr>columns = map (\<lambda>i. columns df ! i) locs,
             rows = map (\<lambda>r. (fst r, map (\<lambda>i. snd r ! i) locs)) (rows df)\<rparr>"
    by (auto simp: select_columns_def split: Option.bind_splits)
  show "map fst (rows shown) = map fst (rows df)" by (simp add: sh comp_def)
  from l have m: "map (\<lambda>n. get_loc n (columns df)) names = map Some locs"
    by (simp add: those_map_Some)
  then have len: "length locs = length names" by (metis length_map)
  have "map (\<lambda>i. fst (columns df ! i)) locs = names"
  proof (rule nth_equalityI)
    show "length (map (\<lambda>i. fst (columns df ! i)) locs) = length names" by (simp add: len)
    fix k assume "k < length (map (\<lambda>i. fst (columns df ! i)) locs)"
    then have k: "k < length names" by (simp add: len)
    from m have "map (\<lambda>n. get_loc n (columns df)) names ! k = map Some locs ! k" by simp
    with k len have "get_loc (names ! k) (columns df) = Some (locs ! k)" by simp
    from get_loc_Some[OF this] k len
    show "map (\<lambda>i. fst (columns df ! i)) locs ! k = names ! k" by simp
  qed
  then show "map fst (columns shown) = names" by (simp add: sh comp_def)
qed

lemma get_loc_map_fst: "(\<And>c. fst (f c) = fst c) \<Longrightarrow> get_loc k (map f cs) = get_loc k cs"
  by (induction cs) auto

lemma get_loc_distinct_nth:
  "distinct (map fst cs) \<Longrightarrow> j < length cs \<Longrightarrow> get_loc (fst (cs ! j)) cs = Some j"
proof (induction cs arbitrary: j)
  case Nil
  then show ?case by simp
next
  case (Cons c cs)
  show ?case
  proof (cases j)
    case 0
    then show ?thesis by simp
  next
    case (Suc j')
    with Cons.prems have "j' < length cs" by simp
    with Cons.prems have "fst (cs ! j') \<noteq> fst c" by (auto simp: image_iff) (metis nth_mem)
    with Cons Suc \<open>j' < length cs\<close> show ?thesis by simp
  qed
qed

lemma zip_map_same: "map (\<lambda>p. h (fst p) (snd p)) (zip xs (map g xs)) = map (\<lambda>x. h x (g x)) xs"
  by (induction xs) auto

lemma strftime_column_step:
  assumes "get_loc c (columns df) = Some i" and "snd (columns df ! i) = datetime64"
  shows "strftime_column c df =
           Some \<lparr>columns = (columns df)[i := (c, object)],
                 rows = map (\<lambda>r. (fst r, (snd r)[i := strftime_cell (snd r ! i)])) (rows df)\<rparr>"
proof -
  have "map (\<lambda>p. (fst (fst p), (snd (fst p))[i := snd p]))
          (zip (rows df) (map (\<lambda>r. strftime_cell (snd r ! i)) (rows df)))
        = map (\<lambda>r. (fst r, (snd r)[i := strftime_cell (snd r ! i)])) (rows df)"
    using zip_map_same[where h = "\<lambda>r v. (fst r, (snd r)[i := v])"
        and g = "\<lambda>r. strftime_cell (snd r ! i)" and xs = "rows df"] by simp
  with assms show ?thesis
    by (simp add: strftime_column_def dt_accessor_def getitem_def setitem_def comp_def)
qed

lemma rendered_empty: "rectangular df \<Longrightarrow> rendered {} df = df"
proof -
  assume r: "rectangular df"
  have "map (\<lambda>r. (fst r, map snd (zip (columns df) (snd r)))) (rows df) = rows df"
  proof (rule map_idI)
    fix x assume "x \<in> set (rows df)"
    with r have "length (snd x) = length (columns df)" by (auto simp: rectangular_def list_all_iff)
    then show "(fst x, map snd (zip (columns df) (snd x))) = x" by (simp add: map_snd_zip)
  qed
  then show ?thesis by (simp add: rendered_def)
qed

lemma rendered_step:
  assumes rect: "rectangular df" and dist: "distinct (map fst (columns df))"
    and i: "i < length (columns df)" and dt: "snd (columns df ! i) = datetime64"
    and c: "c = fst (columns df ! i)" and nin: "c \<notin> D"
  shows "strftime_column c (rendered D df) = Some (rendered (insert c D) df)"
proof -
  let ?f = "\<lambda>c. if fst c \<in> D then (fst c, object) else c"
  let ?f' = "\<lambda>x. if fst x \<in> insert c D then (fst x, object) else x"
  let ?g = "\<lambda>p. if fst (fst p) \<in> D then strftime_cell (snd p) else snd p"
  let ?g' = "\<lambda>p. if fst (fst p) \<in> insert c D then strftime_cell (snd p) else snd p"
  have loc: "get_loc c (columns (rendered D df)) = Some i"
    using get_loc_distinct_nth[OF dist i] c
    by (simp add: rendered_def get_loc_map_fst)
  have dti: "snd (columns (rendered D df) ! i) = datetime64"
    using i dt c nin by (simp add: rendered_def)
  have other: "fst (columns df ! j) \<noteq> c" if "j < length (columns df)" "j \<noteq> i" for j
    using dist that i c by (metis distinct_conv_nth length_map nth_map)
  have cols: "(map ?f (columns df))[i := (c, object)] = map ?f' (columns df)"
  proof (rule nth_equalityI)
    show "length ((map ?f (columns df))[i := (c, object)]) = length (map ?f' (columns df))" by simp
    fix j assume "j < length ((map ?f (columns df))[i := (c, object)])"
    then have j: "j < length (columns df)" by simp
    show "(map ?f (columns df))[i := (c, object)] ! j = map ?f' (columns df) ! j"
    proof (cases "j = i")
      case True
      with i c show ?thesis by simp
    next
      case False
      with j other[OF j False] show ?thesis by simp
    qed
  qed
  have rowsq: "(map ?g (zip (columns df) cs))[i := strftime_cell (map ?g (zip (columns df) cs) ! i)]
                = map ?g' (zip (columns df) cs)"
    if len: "length cs = length (columns df)" for cs
  proof (rule nth_equalityI)
    show "length ((map ?g (zip (columns df) cs))[i := strftime_cell (map ?g (zip (columns df) cs) ! i)])
          = length (map ?g' (zip (columns df) cs))" by simp
    fix j assume "j < length ((map ?g (zip (columns df) cs))[i := strftime_cell (map ?g (zip (columns df) cs) ! i)])"
    then have j: "j < length (columns df)" using len by simp
    show "(map ?g (zip (columns df) cs))[i := strftime_cell (map ?g (zip (columns df) cs) ! i)] ! j
          = map ?g' (zip (columns df) cs) ! j"
    proof (cases "j = i")
      case True
      with i c nin len show ?thesis by simp
    next
      case False
      with j other[OF j False] len show ?thesis by simp
    qed
  qed
  have rws: "map (\<lambda>r. (fst r, (snd r)[i := strftime_cell (snd r ! i)])) (rows (rendered D df))
             = rows (rendered (insert c D) df)"
    unfolding rendered_def
    using rect rowsq by (simp add: rectangular_def list_all_iff comp_def)
  show ?thesis
    unfolding strftime_column_step[OF loc dti]
    using cols rws by (simp add: rendered_def)
qed


lemma for_each_rendered:
  assumes rect: "rectangular df" and dist: "distinct (map fst (columns df))"
  shows "distinct ls \<Longrightarrow> set ls \<inter> D = {} \<Longrightarrow>
         list_all (\<lambda>c. \<exists>i < length (columns df). c = fst (columns df ! i)
                          \<and> snd (columns df ! i) = datetime64) ls \<Longrightarrow>
         for_each strftime_column ls (rendered D df) = Some (rendered (D \<union> set ls) df)"
proof (induction ls arbitrary: D)
  case Nil
  then show ?case by simp
next
  case (Cons c ls)
  from Cons.prems(3) obtain i where i: "i < length (columns df)" "c = fst (columns df ! i)"
    "snd (columns df ! i) = datetime64" by auto
  from Cons.prems(2) have nin: "c \<notin> D" by auto
  have step: "strftime_column c (rendered D df) = Some (rendered (insert c D) df)"
    by (rule rendered_step[OF rect dist i(1) i(3) i(2) nin])
  have "for_each strftime_column ls (rendered (insert c D) df)
        = Some (rendered (insert c D \<union> set ls) df)"
    using Cons.prems by (intro Cons.IH) auto
  with step show ?case by simp
qed

lemma datetime_columns_facts:
  assumes dist: "distinct (map fst (columns df))"
  shows "distinct (datetime_columns df)"
    and "list_all (\<lambda>c. \<exists>i < length (columns df). c = fst (columns df ! i)
                          \<and> snd (columns df ! i) = datetime64) (datetime_columns df)"
    and "c \<in> set (columns df) \<Longrightarrow> fst c \<in> set (datetime_columns df) \<longleftrightarrow> snd c = datetime64"
proof -
  show "distinct (datetime_columns df)"
    unfolding datetime_columns_def using dist by (rule distinct_map_filter)
  show "list_all (\<lambda>c. \<exists>i < length (columns df). c = fst (columns df ! i)
                          \<and> snd (columns df ! i) = datetime64) (datetime_columns df)"
    unfolding datetime_columns_def list_all_iff
    by (auto simp: in_set_conv_nth)
  assume c: "c \<in> set (columns df)"
  show "fst c \<in> set (datetime_columns df) \<longleftrightarrow> snd c = datetime64"
  proof
    assume "fst c \<in> set (datetime_columns df)"
    then obtain c' where c': "c' \<in> set (columns df)" "snd c' = datetime64" "fst c' = fst c"
      by (auto simp: datetime_columns_def)
    with dist c have "c' = c" by (meson distinct_map inj_onD)
    with c' show "snd c = datetime64" by simp
  next
    assume "snd c = datetime64"
    with c have "c \<in> set (filter (\<lambda>c. snd c = datetime64) (columns df))" by simp
    then show "fst c \<in> set (datetime_columns df)"
      unfolding datetime_columns_def by (metis image_eqI list.set_map)
  qed
qed

lemma strftime_loop:
  assumes rect: "rectangular df" and dist: "distinct (map fst (columns df))"
  shows "for_each strftime_column (datetime_columns df) df = Some (exported df)"
proof -
  note D = datetime_columns_facts[OF dist]
  have "for_each strftime_column (datetime_columns df) (rendered {} df)
        = Some (rendered ({} \<union> set (datetime_columns df)) df)"
    by (rule for_each_rendered[OF rect dist D(1) _ D(2)]) simp
  then have a: "for_each strftime_column (datetime_columns df) df
        = Some (rendered (set (datetime_columns df)) df)"
    by (simp add: rendered_empty[OF rect])
  have "rendered (set (datetime_columns df)) df = exported df"
    unfolding rendered_def exported_def
    using D(3) by (auto dest: set_zip_leftD)
  with a show ?thesis by simp
qed

lemma max_len_Max:
  "max_len col dt s = Max (insert (length col) ((\<lambda>c. length (astype_str dt c)) ` set s)) + 2"
proof (cases s)
  case Nil
  then show ?thesis by (simp add: max_len_def)
next
  case (Cons c cs)
  have "fold max (map (\<lambda>c. length (astype_str dt c)) cs) (length (astype_str dt c))
        = Max (set (map (\<lambda>c. length (astype_str dt c)) (c # cs)))"
    using Max.set_eq_fold[of "length (astype_str dt c)" "map (\<lambda>c. length (astype_str dt c)) cs"]
    by simp
  with Cons show ?thesis by (simp add: max_len_def)
qed

lemma those_map_all_Some: "those (map (\<lambda>x. Some (f x)) xs) = Some (map f xs)"
  by (induction xs) auto


lemma exported_labels: "map fst (columns (exported df)) = map fst (columns df)"
  by (auto simp: exported_def)

lemma exported_length: "length (columns (exported df)) = length (columns df)"
  by (simp add: exported_def)

lemma column_calls_exported:
  assumes dist: "distinct (map fst (columns df))" and j: "j < length (columns df)"
  shows "column_calls (exported df) j =
           Some [Set_column j j None (Some Center_VCenter),
                 Set_column j j
                   (Some (max_len (fst (columns df ! j)) (snd (columns (exported df) ! j))
                            (map (\<lambda>r. snd r ! j) (rows (exported df))))) None]"
proof -
  have d': "distinct (map fst (columns (exported df)))" by (simp add: exported_labels dist)
  have j': "j < length (columns (exported df))" by (simp add: exported_length j)
  have lab: "fst (columns (exported df) ! j) = fst (columns df ! j)"
    using j by (simp add: exported_def)
  from get_loc_distinct_nth[OF d' j']
  have "getitem (exported df) (fst (columns (exported df) ! j))
        = Some (map (\<lambda>r. snd r ! j) (rows (exported df)))"
    by (simp add: getitem_def)
  then show ?thesis by (simp add: column_calls_def lab)
qed

lemma exporter_sheet:
  assumes "r < length (heap w)" and "rectangular (heap w ! r)"
    and "distinct (map fst (columns (heap w ! r)))"
  shows "\<exists>wb. download_excel_with_formatting r w
              = Some (wb, w\<lparr>heap := (heap w)[r := exported (heap w ! r)]\<rparr>)
       \<and> sheet_header wb = map fst (columns (heap w ! r))
       \<and> sheet_cells wb = map snd (rows (exported (heap w ! r)))
       \<and> set_column_calls wb =
           concat (map (\<lambda>j. [Set_column j j None (Some Center_VCenter),
                              Set_column j j
                                (Some (Max (insert (length (fst (columns (heap w ! r) ! j)))
                                         ((\<lambda>cs. length (astype_str
                                                    (snd (columns (exported (heap w ! r)) ! j))
                                                    (cs ! j))) ` set (sheet_cells wb))) + 2))
                                None])
                       [0 ..< length (columns (heap w ! r))])"
proof -
  define df where "df = heap w ! r"
  define F where "F = (\<lambda>j. [Set_column j j None (Some Center_VCenter),
                 Set_column j j
                   (Some (max_len (fst (columns df ! j)) (snd (columns (exported df) ! j))
                            (map (\<lambda>r. snd r ! j) (rows (exported df))))) None])"
  have loop: "for_each strftime_column (datetime_columns df) df = Some (exported df)"
    using assms(2,3) unfolding df_def by (rule strftime_loop)
  have "map (column_calls (exported df)) [0 ..< length (columns df)]
        = map (\<lambda>j. Some (F j)) [0 ..< length (columns df)]"
    by (rule map_cong[OF refl])
       (simp add: F_def column_calls_exported[OF assms(3)[folded df_def]])
  then have calls: "those (map (column_calls (exported df)) [0 ..< length (columns (exported df))])
        = Some (map F [0 ..< length (columns df)])"
    by (simp only: exported_length those_map_all_Some)
  have dl: "download_excel_with_formatting r w
        = Some (\<lparr>sheet_header = map fst (columns (exported df)),
                 sheet_cells = map snd (rows (exported df)),
                 set_column_calls = concat (map F [0 ..< length (columns df)])\<rparr>,
                w\<lparr>heap := (heap w)[r := exported df]\<rparr>)"
    using loop calls by (simp add: download_excel_with_formatting_def df_def[symmetric])
  have Feq: "F = (\<lambda>j. [Set_column j j None (Some Center_VCenter),
                   Set_column j j
                     (Some (Max (insert (length (fst (columns df ! j)))
                              ((\<lambda>cs. length (astype_str (snd (columns (exported df) ! j)) (cs ! j)))
                                 ` set (map snd (rows (exported df))))) + 2))
                     None])"
    by (rule ext) (simp add: F_def max_len_Max image_image)
  show ?thesis
    unfolding df_def[symmetric] dl Feq
    by (simp add: exported_labels)
qed


lemma filter_covers_concat:
  "filter (covers j) (concat (map (\<lambda>i. [Set_column i i (a i) (b i), Set_column i i (c i) (d i)]) [m ..< n]))
   = (if m \<le> j \<and> j < n then [Set_column j j (a j) (b j), Set_column j j (c j) (d j)] else [])"
proof (induction n)
  case 0
  then show ?case by simp
next
  case (Suc n)
  show ?case
  proof (cases "m \<le> n")
    case True
    with Suc show ?thesis by (auto simp: upt_Suc_append)
  next
    case False
    then show ?thesis by simp
  qed
qed

lemma exporter_col_info:
  assumes "r < length (heap w)" and "rectangular (heap w ! r)"
    and "distinct (map fst (columns (heap w ! r)))"
    and "download_excel_with_formatting r w = Some (wb, w')"
    and "j < length (columns (heap w ! r))"
  shows "\<exists>width. col_info (set_column_calls wb) j = Some (Some width, None)"
proof -
  from exporter_sheet[OF assms(1-3)] assms(4) obtain W where
    "set_column_calls wb =
       concat (map (\<lambda>j. [Set_column j j None (Some Center_VCenter), Set_column j j (Some (W j)) None])
                 [0 ..< length (columns (heap w ! r))])"
    by auto
  then show ?thesis
    using assms(5) by (simp add: col_info_def filter_covers_concat)
qed

lemma main_cases:
  "main T ui hoje w =
     (case filtros_obrigatorios T ui of
        None \<Rightarrow> None
      | Some (Inl a) \<Rightarrow> Some (Stopped a, after_load T w)
      | Some (Inr ob) \<Rightarrow> do {
            t \<leftarrow> filtro_temporal T (df_obrigatorios ob) hoje ui (session_state (after_load T w));
            df \<leftarrow> calcular_dias hoje (df_temporal t);
            a \<leftarrow> tabela_alerta df (alerta_dias_config ui);
            (b1, w3) \<leftarrow> download_excel_with_formatting (length (heap w))
                          ((after_load T w)\<lparr>heap := heap w @ [T, df], session_state := session_out t\<rparr>);
            (b2, w4) \<leftarrow> download_excel_with_formatting (Suc (length (heap w))) w3;
            Some (Rendered \<lparr>filtros = ob, tempo = t, df_final = df, alertas = a,
                            buffer_completo = b1, buffer_filtrado = b2\<rparr>, w4)
          })"
  by (simp add: main_def Let_def after_load_def split: option.splits sum.splits)

lemma main_Stopped_iff:
  "main T ui hoje w = Some (Stopped a, w') \<longleftrightarrow>
     filtros_obrigatorios T ui = Some (Inl a) \<and> w' = after_load T w"
proof (cases "filtros_obrigatorios T ui")
  case None
  then show ?thesis by (simp add: main_cases)
next
  case (Some f)
  show ?thesis
  proof (cases f)
    case (Inl x)
    with Some show ?thesis by (auto simp: main_cases)
  next
    case (Inr ob)
    with Some show ?thesis
      by (auto simp: main_cases split: Option.bind_splits prod.splits)
  qed
qed



lemma filtro_temporal_factored:
  "filtro_temporal T df hoje ui ss =
     do {
       s \<leftarrow> getitem df col_uf;
       stored \<leftarrow> (case fiscal_year_slider ss of
                    Some y \<Rightarrow> Some y
                  | None \<Rightarrow> ano_inicial T hoje);
       t \<leftarrow> temporal_core df ui (case fiscal_month_multiselect ss of Some ms \<Rightarrow> ms | None \<Rightarrow> []) s;
       Some (t\<lparr>session_out := ss\<lparr>fiscal_year_slider := Some (ano_armazenado (anos_disponiveis t) stored),
                                  fiscal_month_multiselect :=
                                    Some (case fiscal_month_multiselect ss of Some ms \<Rightarrow> ms | None \<Rightarrow> [])\<rparr>\<rparr>)
     }"
  by (simp add: filtro_temporal_def temporal_core_def ano_armazenado_def Let_def
      split: Option.bind_split)


lemma ano_armazenado_idem:
  "(case anos of None \<Rightarrow> True | Some (lo, hi) \<Rightarrow> lo \<le> hi) \<Longrightarrow>
   ano_armazenado anos (ano_armazenado anos y) = ano_armazenado anos y"
  by (auto simp: ano_armazenado_def clamp_year_def split: option.splits)

lemma filtro_temporal_rerun:
  assumes "filtro_temporal T df hoje ui ss = Some t"
  shows "\<exists>t2. filtro_temporal T df hoje ui ((session_out t)\<lparr>df_original_available := x\<rparr>) = Some t2
     \<and> df_temporal t2 = df_temporal t \<and> anos_disponiveis t2 = anos_disponiveis t
     \<and> selected_year t2 = selected_year t \<and> available_month_names t2 = available_month_names t
     \<and> default_months_for_multiselect t2 = default_months_for_multiselect t
     \<and> fiscal_month_multiselect (session_out t2) = fiscal_month_multiselect (session_out t)
     \<and> df_original_available (session_out t2) = x
     \<and> ((case anos_disponiveis t of None \<Rightarrow> True | Some (lo, hi) \<Rightarrow> lo \<le> hi) \<longrightarrow>
           fiscal_year_slider (session_out t2) = fiscal_year_slider (session_out t))"
proof -
  define meses where "meses = (case fiscal_month_multiselect ss of Some ms \<Rightarrow> ms | None \<Rightarrow> [])"
  from assms obtain s stored c where s: "getitem df col_uf = Some s"
    and c: "temporal_core df ui meses s = Some c"
    and t: "t = c\<lparr>session_out := ss\<lparr>fiscal_year_slider := Some (ano_armazenado (anos_disponiveis c) stored),
                                     fiscal_month_multiselect := Some meses\<rparr>\<rparr>"
    unfolding filtro_temporal_factored meses_def[symmetric]
    by (auto split: Option.bind_splits)
  define ss2 where "ss2 = (session_out t)\<lparr>df_original_available := x\<rparr>"
  have y2: "fiscal_year_slider ss2 = Some (ano_armazenado (anos_disponiveis c) stored)"
    and m2: "fiscal_month_multiselect ss2 = Some meses"
    by (simp_all add: ss2_def t)
  have run2: "filtro_temporal T df hoje ui ss2
      = Some (c\<lparr>session_out := ss2\<lparr>fiscal_year_slider :=
                     Some (ano_armazenado (anos_disponiveis c) (ano_armazenado (anos_disponiveis c) stored)),
                   fiscal_month_multiselect := Some meses\<rparr>\<rparr>)"
    unfolding filtro_temporal_factored using s c y2 m2 by simp
  show ?thesis
    unfolding ss2_def[symmetric] run2
    by (simp add: t ss2_def ano_armazenado_idem)
qed

lemma download_shape:
  assumes "download_excel_with_formatting r w = Some (wb, w')"
  shows "\<exists>df'. w' = w\<lparr>heap := (heap w)[r := df']\<rparr>"
  using assms by (auto simp: download_excel_with_formatting_def split: Option.bind_splits)

lemma download_same_table:
  assumes "download_excel_with_formatting r w = Some (wb, w')" and "heap v ! r' = heap w ! r"
  shows "\<exists>v'. download_excel_with_formatting r' v = Some (wb, v')"
  using assms by (auto simp: download_excel_with_formatting_def split: Option.bind_splits)

lemma main_Rendered:
  assumes "main T ui hoje w = Some (Rendered p, w')"
  shows "\<exists>w3. filtros_obrigatorios T ui = Some (Inr (filtros p))
     \<and> filtro_temporal T (df_obrigatorios (filtros p)) hoje ui (session_state (after_load T w))
         = Some (tempo p)
     \<and> calcular_dias hoje (df_temporal (tempo p)) = Some (df_final p)
     \<and> tabela_alerta (df_final p) (alerta_dias_config ui) = Some (alertas p)
     \<and> download_excel_with_formatting (length (heap w))
          ((after_load T w)\<lparr>heap := heap w @ [T, df_final p], session_state := session_out (tempo p)\<rparr>)
         = Some (buffer_completo p, w3)
     \<and> download_excel_with_formatting (Suc (length (heap w))) w3 = Some (buffer_filtrado p, w')"
proof (cases "filtros_obrigatorios T ui")
  case None
  with assms show ?thesis by (simp add: main_cases)
next
  case (Some f)
  show ?thesis
  proof (cases f)
    case (Inl a)
    with Some assms show ?thesis by (simp add: main_cases)
  next
    case (Inr ob)
    with Some assms show ?thesis
      by (auto simp: main_cases split: Option.bind_splits prod.splits)
  qed
qed

lemma main_RenderedI:
  assumes "filtros_obrigatorios T ui = Some (Inr ob)"
    and "filtro_temporal T (df_obrigatorios ob) hoje ui (session_state (after_load T w)) = Some t"
    and "calcular_dias hoje (df_temporal t) = Some df"
    and "tabela_alerta df (alerta_dias_config ui) = Some a"
    and "download_excel_with_formatting (length (heap w))
          ((after_load T w)\<lparr>heap := heap w @ [T, df], session_state := session_out t\<rparr>)
         = Some (b1, w3)"
    and "download_excel_with_formatting (Suc (length (heap w))) w3 = Some (b2, w4)"
  shows "main T ui hoje w = Some (Rendered \<lparr>filtros = ob, tempo = t, df_final = df, alertas = a,
                            buffer_completo = b1, buffer_filtrado = b2\<rparr>, w4)"
  using assms by (simp add: main_cases)

lemma timestamps_Some:
  "timestamps xs = Some ts \<Longrightarrow> xs = map Timestamp ts"
proof -
  assume "timestamps xs = Some ts"
  then have m: "map the_timestamp xs = map Some ts" by (simp add: timestamps_def those_map_Some)
  show "xs = map Timestamp ts"
  proof (rule nth_equalityI)
    from m show l: "length xs = length (map Timestamp ts)" by (metis length_map)
    fix i assume i: "i < length xs"
    from m have "map the_timestamp xs ! i = map Some ts ! i" by simp
    with i l have "the_timestamp (xs ! i) = Some (ts ! i)" by simp
    then have "xs ! i = Timestamp (ts ! i)" by (cases "xs ! i") auto
    with i l show "xs ! i = map Timestamp ts ! i" by simp
  qed
qed

lemma fold_min_le: "fold min xs (a::int) \<le> a \<and> (\<forall>x \<in> set xs. fold min xs a \<le> x) \<and> fold min xs a \<in> insert a (set xs)"
proof (induction xs arbitrary: a)
  case Nil
  then show ?case by simp
next
  case (Cons x xs)
  from Cons.IH[of "min x a"] show ?case by (auto simp: min_def split: if_splits)
qed

lemma fold_max_ge: "a \<le> fold max xs (a::int) \<and> (\<forall>x \<in> set xs. x \<le> fold max xs a) \<and> fold max xs a \<in> insert a (set xs)"
proof (induction xs arbitrary: a)
  case Nil
  then show ?case by simp
next
  case (Cons x xs)
  from Cons.IH[of "max x a"] show ?case by (auto simp: max_def split: if_splits)
qed

lemma series_min_Some: "series_min ts = Some e \<Longrightarrow> e \<in> set ts \<and> (\<forall>t \<in> set ts. e \<le> t)"
  using fold_min_le by (cases ts) (auto simp: series_min_def)

lemma series_max_Some: "series_max ts = Some l \<Longrightarrow> l \<in> set ts \<and> (\<forall>t \<in> set ts. t \<le> l)"
  using fold_max_ge by (cases ts) (auto simp: series_max_def)

lemma temporal_core_empty:
  assumes "temporal_core df ui meses s = Some c" and "dropna s = []"
  shows "anos_disponiveis c = None" "selected_year c = None" "available_month_names c = []"
    "df_temporal c = df"
  using assms by (auto simp: temporal_core_def)

lemma temporal_core_nonempty:
  assumes "temporal_core df ui meses s = Some c" and ne: "dropna s \<noteq> []"
  shows "\<exists>ts e l. timestamps (dropna s) = Some ts \<and> series_min ts = Some e
           \<and> series_max ts = Some l
           \<and> anos_disponiveis c = Some (ts_year e, ts_year l)
           \<and> selected_year c = Some (if ts_year e = ts_year l then ts_year e else year_slider ui)
           \<and> those (map (map_of month_names)
                 (sort (remdups (map ts_month
                    (filter (\<lambda>t. ts_year t = (if ts_year e = ts_year l then ts_year e
                                               else year_slider ui)) ts)))))
               = Some (available_month_names c)"
proof -
  obtain ts where t: "timestamps (dropna s) = Some ts"
    using assms by (cases "timestamps (dropna s)") (simp_all add: temporal_core_def)
  obtain e where e: "series_min ts = Some e"
    using assms t by (cases "series_min ts") (simp_all add: temporal_core_def)
  obtain l where l: "series_max ts = Some l"
    using assms t e by (cases "series_max ts") (simp_all add: temporal_core_def)
  define y where "y = (if ts_year e = ts_year l then ts_year e else year_slider ui)"
  obtain av where av: "those (map (map_of month_names)
                 (sort (remdups (map ts_month (filter (\<lambda>t. ts_year t = y) ts))))) = Some av"
    using assms t e l
    by (cases "those (map (map_of month_names)
                 (sort (remdups (map ts_month (filter (\<lambda>t. ts_year t = y) ts)))))")
       (simp_all add: temporal_core_def Let_def y_def)
  have "anos_disponiveis c = Some (ts_year e, ts_year l) \<and> selected_year c = Some y
        \<and> available_month_names c = av"
  proof (cases "av = []")
    case True
    with assms t e l av show ?thesis
      by (auto simp: temporal_core_def Let_def y_def)
  next
    case False
    obtain nums where n: "those (map month_number (months_multiselect ui)) = Some nums"
      using assms t e l av False
      by (cases "those (map month_number (months_multiselect ui))")
         (simp_all add: temporal_core_def Let_def y_def)
    obtain dt where d: "dt_accessor df col_uf = Some dt"
      using assms t e l av False n
      by (cases "dt_accessor df col_uf") (simp_all add: temporal_core_def Let_def y_def)
    from assms t e l av False n d show ?thesis
      by (auto simp: temporal_core_def Let_def y_def)
  qed
  with t e l av show ?thesis unfolding y_def by blast
qed

lemma temporal_core_facts:
  assumes "temporal_core df ui meses s = Some c"
  shows "anos_disponiveis c = None \<longleftrightarrow> dropna s = []"
    and "selected_year c = None \<longleftrightarrow> dropna s = []"
    and "anos_disponiveis c = Some (lo, hi) \<Longrightarrow>
          \<exists>ts e l. dropna s = map Timestamp ts \<and> e \<in> set ts \<and> l \<in> set ts
             \<and> (\<forall>t \<in> set ts. e \<le> t \<and> t \<le> l) \<and> lo = ts_year e \<and> hi = ts_year l
             \<and> selected_year c = Some (if lo = hi then lo else year_slider ui)"
    and "selected_year c = Some y \<Longrightarrow>
          \<exists>ts. dropna s = map Timestamp ts
             \<and> map (map_of month_names) (sort (remdups (map ts_month (filter (\<lambda>t. ts_year t = y) ts))))
                 = map Some (available_month_names c)"
proof -
  show a: "anos_disponiveis c = None \<longleftrightarrow> dropna s = []"
  proof (cases "dropna s = []")
    case True
    with temporal_core_empty(1)[OF assms] show ?thesis by simp
  next
    case False
    from temporal_core_nonempty[OF assms False] False show ?thesis by auto
  qed
  show b: "selected_year c = None \<longleftrightarrow> dropna s = []"
  proof (cases "dropna s = []")
    case True
    with temporal_core_empty(2)[OF assms] show ?thesis by simp
  next
    case False
    from temporal_core_nonempty[OF assms False] False show ?thesis by auto
  qed
  show "\<exists>ts e l. dropna s = map Timestamp ts \<and> e \<in> set ts \<and> l \<in> set ts
             \<and> (\<forall>t \<in> set ts. e \<le> t \<and> t \<le> l) \<and> lo = ts_year e \<and> hi = ts_year l
             \<and> selected_year c = Some (if lo = hi then lo else year_slider ui)"
    if h: "anos_disponiveis c = Some (lo, hi)"
  proof -
    from h a have "dropna s \<noteq> []" by auto
    from temporal_core_nonempty[OF assms this] obtain ts e l where
      t: "timestamps (dropna s) = Some ts" and e: "series_min ts = Some e"
      and l: "series_max ts = Some l"
      and an: "anos_disponiveis c = Some (ts_year e, ts_year l)"
      and se: "selected_year c = Some (if ts_year e = ts_year l then ts_year e else year_slider ui)"
      by blast
    from an h have lh: "lo = ts_year e" "hi = ts_year l" by simp_all
    from timestamps_Some[OF t] series_min_Some[OF e] series_max_Some[OF l] lh se
    show ?thesis by blast
  qed
  show "\<exists>ts. dropna s = map Timestamp ts
             \<and> map (map_of month_names) (sort (remdups (map ts_month (filter (\<lambda>t. ts_year t = y) ts))))
                 = map Some (available_month_names c)"
    if h: "selected_year c = Some y"
  proof -
    from h b have "dropna s \<noteq> []" by auto
    from temporal_core_nonempty[OF assms this] obtain ts e l where
      t: "timestamps (dropna s) = Some ts"
      and se: "selected_year c = Some (if ts_year e = ts_year l then ts_year e else year_slider ui)"
      and av: "those (map (map_of month_names)
                 (sort (remdups (map ts_month
                    (filter (\<lambda>t. ts_year t = (if ts_year e = ts_year l then ts_year e
                                               else year_slider ui)) ts)))))
               = Some (available_month_names c)"
      by blast
    from se h have "y = (if ts_year e = ts_year l then ts_year e else year_slider ui)" by simp
    with av have "map (map_of month_names) (sort (remdups (map ts_month (filter (\<lambda>t. ts_year t = y) ts))))
                 = map Some (available_month_names c)"
      by (simp only: those_map_Some)
    with timestamps_Some[OF t] show ?thesis by blast
  qed
qed


lemma valid_dates_set:
  assumes "getitem df col_uf = Some s" and "dropna s = map Timestamp ts"
  shows "set ts = valid_dates df"
proof -
  from assms(1) obtain i where i: "get_loc col_uf (columns df) = Some i"
    and s: "s = map (\<lambda>r. snd r ! i) (rows df)"
    by (auto simp: getitem_def)
  have "t \<in> set ts \<longleftrightarrow> t \<in> valid_dates df" for t
  proof -
    have "t \<in> set ts \<longleftrightarrow> Timestamp t \<in> set (dropna s)" by (auto simp: assms(2))
    also have "\<dots> \<longleftrightarrow> Timestamp t \<in> set s" by (simp add: dropna_def)
    also have "\<dots> \<longleftrightarrow> (\<exists>r \<in> set (rows df). snd r ! i = Timestamp t)"
      unfolding s by (simp add: image_iff) (metis)
    also have "\<dots> \<longleftrightarrow> t \<in> valid_dates df"
      by (simp add: valid_dates_def cell_at_def i)
    finally show ?thesis .
  qed
  then show ?thesis by blast
qed

lemma dropna_empty_valid_dates:
  assumes "getitem df col_uf = Some s" and "dropna s = []"
  shows "valid_dates df = {}"
  using valid_dates_set[OF assms(1), of "[]"] assms(2) by simp

lemma ano_inicial_Some:
  assumes "ano_inicial T hoje = Some y"
  shows "(valid_dates T = {} \<and> y = date_year hoje)
       \<or> (\<exists>l \<in> valid_dates T. (\<forall>t \<in> valid_dates T. t \<le> l) \<and> y = ts_year l)"
proof -
  from assms obtain s where s: "getitem T col_uf = Some s"
    by (cases "getitem T col_uf") (simp_all add: ano_inicial_def)
  show ?thesis
  proof (cases "dropna s = []")
    case True
    with assms s have "y = date_year hoje" by (simp add: ano_inicial_def)
    with dropna_empty_valid_dates[OF s True] show ?thesis by simp
  next
    case False
    obtain ts where t: "timestamps (dropna s) = Some ts"
      using assms s False by (cases "timestamps (dropna s)") (simp_all add: ano_inicial_def)
    obtain l where l: "series_max ts = Some l"
      using assms s False t by (cases "series_max ts") (simp_all add: ano_inicial_def)
    from assms s False t l have y: "y = ts_year l" by (simp add: ano_inicial_def)
    from valid_dates_set[OF s timestamps_Some[OF t]] series_max_Some[OF l] y
    show ?thesis by auto
  qed
qed

lemma ano_armazenado_range:
  "lo \<le> hi \<Longrightarrow> lo \<le> ano_armazenado (Some (lo, hi)) y \<and> ano_armazenado (Some (lo, hi)) y \<le> hi"
  by (simp add: ano_armazenado_def clamp_year_def)

lemma filtro_temporal_parts:
  assumes "filtro_temporal T df hoje ui ss = Some t"
  shows "\<exists>s stored c. getitem df col_uf = Some s
      \<and> (case fiscal_year_slider ss of Some y \<Rightarrow> Some y | None \<Rightarrow> ano_inicial T hoje) = Some stored
      \<and> temporal_core df ui (case fiscal_month_multiselect ss of Some ms \<Rightarrow> ms | None \<Rightarrow> []) s = Some c
      \<and> anos_disponiveis t = anos_disponiveis c \<and> selected_year t = selected_year c
      \<and> available_month_names t = available_month_names c
      \<and> df_temporal t = df_temporal c
      \<and> fiscal_year_slider (session_out t) = Some (ano_armazenado (anos_disponiveis c) stored)
      \<and> fiscal_month_multiselect (session_out t)
          = Some (case fiscal_month_multiselect ss of Some ms \<Rightarrow> ms | None \<Rightarrow> [])"
  using assms unfolding filtro_temporal_factored
  by (auto split: Option.bind_splits)


lemma months_set:
  assumes "map (map_of month_names) (sort (remdups (map ts_month (filter (\<lambda>t. ts_year t = y) ts))))
           = map Some av"
  shows "set av = {name. \<exists>t \<in> set ts. ts_year t = y \<and> map_of month_names (ts_month t) = Some name}"
proof -
  from assms have "set (map (map_of month_names) (sort (remdups (map ts_month (filter (\<lambda>t. ts_year t = y) ts)))))
           = set (map Some av)" by simp
  then have e: "map_of month_names ` ts_month ` {t \<in> set ts. ts_year t = y} = Some ` set av"
    by simp
  show ?thesis
  proof (rule set_eqI)
    fix name
    have "name \<in> set av \<longleftrightarrow> Some name \<in> Some ` set av" by auto
    also have "\<dots> \<longleftrightarrow> Some name \<in> map_of month_names ` ts_month ` {t \<in> set ts. ts_year t = y}"
      by (simp only: e)
    also have "\<dots> \<longleftrightarrow> (\<exists>t \<in> set ts. ts_year t = y \<and> map_of month_names (ts_month t) = Some name)"
      by (auto simp: image_iff)
    finally show "name \<in> set av \<longleftrightarrow> name \<in> {name. \<exists>t \<in> set ts. ts_year t = y
                     \<and> map_of month_names (ts_month t) = Some name}"
      by simp
  qed
qed

lemma get_loc_append_other:
  "fst c \<noteq> k \<Longrightarrow> get_loc k (cs @ [c]) = get_loc k cs"
  by (induction cs) auto

lemma dias_lambda_total:
  "date_or_missing x \<Longrightarrow> \<exists>y. dias_lambda hoje x = Some y"
  by (cases x) (auto simp: dias_lambda_def)

lemma those_map_total:
  assumes "\<forall>x \<in> set xs. \<exists>y. f x = Some y"
  shows "those (map f xs) = Some (map (\<lambda>x. the (f x)) xs)"
  using assms by (induction xs) auto

lemma calcular_dias_total:
  assumes s: "getitem df col_uf = Some s" and d: "list_all date_or_missing s"
  shows "\<exists>df'. calcular_dias hoje df = Some df'"
proof -
  from s obtain i where i: "get_loc col_uf (columns df) = Some i"
    and s': "s = map (\<lambda>r. snd r ! i) (rows df)"
    by (auto simp: getitem_def)
  from d have "\<forall>x \<in> set s. \<exists>y. dias_lambda hoje x = Some y"
    by (auto simp: list_all_iff dias_lambda_total)
  from those_map_total[OF this]
  have ys: "those (map (dias_lambda hoje) s) = Some (map (\<lambda>x. the (dias_lambda hoje x)) s)" .
  have len: "length (map (\<lambda>x. the (dias_lambda hoje x)) s) = length (rows df)"
    by (simp add: s')
  show ?thesis
    unfolding calcular_dias_def using i s ys len
    by (simp add: setitem_def split: option.splits)
qed

lemma calcular_dias_rows:
  assumes c: "calcular_dias hoje df = Some df'" and rect: "rectangular df"
  shows "length (rows df') = length (rows df)"
    and "k < length (rows df) \<Longrightarrow> fst (rows df' ! k) = fst (rows df ! k)"
    and "k < length (rows df) \<Longrightarrow> name \<noteq> col_dias \<Longrightarrow>
           cell_at df' name (rows df' ! k) = cell_at df name (rows df ! k)"
    and "k < length (rows df) \<Longrightarrow>
           \<exists>u d. cell_at df col_uf (rows df ! k) = Some u
             \<and> cell_at df' col_dias (rows df' ! k) = Some d
             \<and> (notna d \<longleftrightarrow> notna u)
             \<and> (\<forall>ts. u = Timestamp ts \<longrightarrow> d = Num (hoje - to_date ts))
             \<and> (notna u \<longrightarrow> (\<exists>ts. u = Timestamp ts))"
proof -
  from c obtain i s ys where i: "get_loc col_uf (columns df) = Some i"
    and s: "getitem df col_uf = Some s"
    and ys: "those (map (dias_lambda hoje) s) = Some ys"
    and st: "setitem df col_dias (fst (apply_result (snd (columns df ! i)) ys))
               (snd (apply_result (snd (columns df ! i)) ys)) = Some df'"
    by (auto simp: calcular_dias_def split: Option.bind_splits)
  define dt where "dt = fst (apply_result (snd (columns df ! i)) ys)"
  define vals where "vals = snd (apply_result (snd (columns df ! i)) ys)"
  from s i have s': "s = map (\<lambda>r. snd r ! i) (rows df)" by (simp add: getitem_def)
  from ys have ysm: "map (dias_lambda hoje) s = map Some ys" by (simp add: those_map_Some)
  then have len: "length ys = length (rows df)" using s'
    by (metis length_map)
  have lv: "length vals = length (rows df)" by (simp add: vals_def len)
  from i have ilt: "i < length (columns df)" by (simp add: get_loc_Some)
  from st have st': "setitem df col_dias dt vals = Some df'" by (simp add: dt_def vals_def)
  show L: "length (rows df') = length (rows df)" by (rule setitem_rows(1)[OF st'])
  have rl: "length (snd (rows df ! k)) = length (columns df)" if "k < length (rows df)" for k
    using rect that by (auto simp: rectangular_def list_all_length)
  have shape: "(get_loc col_dias (columns df) = None
           \<and> columns df' = columns df @ [(col_dias, dt)]
           \<and> (\<forall>k < length (rows df). rows df' ! k = (fst (rows df ! k), snd (rows df ! k) @ [vals ! k])))
       \<or> (\<exists>j. get_loc col_dias (columns df) = Some j
           \<and> columns df' = (columns df)[j := (col_dias, dt)]
           \<and> (\<forall>k < length (rows df). rows df' ! k = (fst (rows df ! k), (snd (rows df ! k))[j := vals ! k])))"
  proof (cases "get_loc col_dias (columns df)")
    case None
    with st' lv have df': "df' = \<lparr>columns = columns df @ [(col_dias, dt)],
        rows = map (\<lambda>p. (fst (fst p), snd (fst p) @ [snd p])) (zip (rows df) vals)\<rparr>"
      by (simp add: setitem_def)
    with None lv show ?thesis by simp
  next
    case (Some j)
    with st' lv have df': "df' = \<lparr>columns = (columns df)[j := (col_dias, dt)],
        rows = map (\<lambda>p. (fst (fst p), (snd (fst p))[j := snd p])) (zip (rows df) vals)\<rparr>"
      by (simp add: setitem_def)
    with Some lv show ?thesis by simp
  qed
  show "fst (rows df' ! k) = fst (rows df ! k)" if "k < length (rows df)"
    using shape that by auto
  show "cell_at df' name (rows df' ! k) = cell_at df name (rows df ! k)"
    if k: "k < length (rows df)" and n: "name \<noteq> col_dias"
  proof -
    from shape show ?thesis
    proof (elim disjE exE conjE)
      assume a: "get_loc col_dias (columns df) = None"
        and b: "columns df' = columns df @ [(col_dias, dt)]"
        and r: "\<forall>k < length (rows df). rows df' ! k = (fst (rows df ! k), snd (rows df ! k) @ [vals ! k])"
      have g: "get_loc name (columns df') = get_loc name (columns df)"
        unfolding b using n by (simp add: get_loc_append_other)
      show ?thesis
      proof (cases "get_loc name (columns df)")
        case None
        with g show ?thesis by (simp add: cell_at_def)
      next
        case (Some m)
        from get_loc_Some[OF Some] rl[OF k] have "m < length (snd (rows df ! k))" by simp
        with g Some r k show ?thesis by (simp add: cell_at_def nth_append)
      qed
    next
      fix j
      assume a: "get_loc col_dias (columns df) = Some j"
        and b: "columns df' = (columns df)[j := (col_dias, dt)]"
        and r: "\<forall>k < length (rows df). rows df' ! k = (fst (rows df ! k), (snd (rows df ! k))[j := vals ! k])"
      have g: "get_loc name (columns df') = get_loc name (columns df)"
        unfolding b using n a by (simp add: get_loc_update_other)
      show ?thesis
      proof (cases "get_loc name (columns df)")
        case None
        with g show ?thesis by (simp add: cell_at_def)
      next
        case (Some m)
        from get_loc_Some[OF Some] get_loc_Some[OF a] n have "m \<noteq> j" by auto
        with g Some r k show ?thesis by (simp add: cell_at_def)
      qed
    qed
  qed
  show "\<exists>u d. cell_at df col_uf (rows df ! k) = Some u
             \<and> cell_at df' col_dias (rows df' ! k) = Some d
             \<and> (notna d \<longleftrightarrow> notna u)
             \<and> (\<forall>ts. u = Timestamp ts \<longrightarrow> d = Num (hoje - to_date ts))
             \<and> (notna u \<longrightarrow> (\<exists>ts. u = Timestamp ts))"
    if k: "k < length (rows df)"
  proof -
    define r where "r = rows df ! k"
    have yk: "dias_lambda hoje (snd r ! i) = Some (ys ! k)"
    proof -
      from ysm have "map (dias_lambda hoje) s ! k = map Some ys ! k" by simp
      with k len s' show ?thesis by (simp add: r_def)
    qed
    have vk: "(notna (vals ! k) \<longleftrightarrow> ys ! k \<noteq> PyNone \<and> notna (ys ! k))
         \<and> (ys ! k \<noteq> PyNone \<longrightarrow> vals ! k = ys ! k)"
      unfolding vals_def using apply_result_nth k len by simp
    have u: "cell_at df col_uf r = Some (snd r ! i)"
      by (simp add: cell_at_def i)
    have d: "cell_at df' col_dias (rows df' ! k) = Some (vals ! k)"
      using shape
    proof (elim disjE exE conjE)
      assume a: "get_loc col_dias (columns df) = None"
        and b: "columns df' = columns df @ [(col_dias, dt)]"
        and r: "\<forall>k < length (rows df). rows df' ! k = (fst (rows df ! k), snd (rows df ! k) @ [vals ! k])"
      from rl[OF k] have "(snd (rows df ! k) @ [vals ! k]) ! length (columns df) = vals ! k"
        by (metis nth_append_length)
      with a b r k show ?thesis
        by (simp add: cell_at_def get_loc_append_new)
    next
      fix j
      assume a: "get_loc col_dias (columns df) = Some j"
        and b: "columns df' = (columns df)[j := (col_dias, dt)]"
        and r: "\<forall>k < length (rows df). rows df' ! k = (fst (rows df ! k), (snd (rows df ! k))[j := vals ! k])"
      from get_loc_Some[OF a] rl[OF k] have "j < length (snd (rows df ! k))" by simp
      with a b r k show ?thesis
        by (simp add: cell_at_def get_loc_update_same)
    qed
    from dias_lambda_Some[OF yk] vk u d show ?thesis
      unfolding r_def by (cases "snd (rows df ! k) ! i") auto
  qed
qed

lemma those_map_mem:
  assumes "those (map f xs) = Some ys"
  shows "y \<in> set ys \<longleftrightarrow> (\<exists>x \<in> set xs. f x = Some y)"
proof -
  from assms have "map f xs = map Some ys" by (simp add: those_map_Some)
  then have "set (map f xs) = set (map Some ys)" by simp
  then have e: "f ` set xs = Some ` set ys" by simp
  have "y \<in> set ys \<longleftrightarrow> Some y \<in> Some ` set ys" by auto
  also have "\<dots> \<longleftrightarrow> Some y \<in> f ` set xs" by (simp only: e)
  also have "\<dots> \<longleftrightarrow> (\<exists>x \<in> set xs. f x = Some y)" by (metis image_iff)
  finally show ?thesis .
qed

lemma available_months_empty:
  assumes t: "filtro_temporal T df hoje ui ss = Some t"
  shows "available_month_names t \<noteq> [] \<longleftrightarrow>
           (\<exists>x \<in> valid_dates df. selected_year t = Some (ts_year x))"
proof -
  from filtro_temporal_parts[OF t] obtain s c where
    s: "getitem df col_uf = Some s"
    and c: "temporal_core df ui (case fiscal_month_multiselect ss of Some ms \<Rightarrow> ms | None \<Rightarrow> []) s = Some c"
    and eqs: "selected_year t = selected_year c"
      "available_month_names t = available_month_names c"
    by blast
  show ?thesis
  proof (cases "dropna s = []")
    case True
    from temporal_core_empty(3)[OF c True] dropna_empty_valid_dates[OF s True] eqs
    show ?thesis by simp
  next
    case False
    from temporal_core_nonempty[OF c False] obtain ts y where
      ts: "timestamps (dropna s) = Some ts"
      and y: "selected_year c = Some y"
      and av: "those (map (map_of month_names)
                 (sort (remdups (map ts_month (filter (\<lambda>t. ts_year t = y) ts)))))
               = Some (available_month_names c)"
      by blast
    from av have "map (map_of month_names)
                 (sort (remdups (map ts_month (filter (\<lambda>t. ts_year t = y) ts))))
               = map Some (available_month_names c)"
      by (simp only: those_map_Some)
    then have "length (sort (remdups (map ts_month (filter (\<lambda>t. ts_year t = y) ts))))
               = length (available_month_names c)"
      by (metis length_map)
    then have "available_month_names c \<noteq> [] \<longleftrightarrow>
                 sort (remdups (map ts_month (filter (\<lambda>t. ts_year t = y) ts))) \<noteq> []"
      by (metis length_0_conv)
    also have "\<dots> \<longleftrightarrow> set (sort (remdups (map ts_month (filter (\<lambda>t. ts_year t = y) ts)))) \<noteq> {}"
      by (simp only: set_empty)
    also have "\<dots> \<longleftrightarrow> (\<exists>x \<in> set ts. ts_year x = y)"
      by auto
    finally have "available_month_names c \<noteq> [] \<longleftrightarrow> (\<exists>x \<in> set ts. ts_year x = y)" .
    with valid_dates_set[OF s timestamps_Some[OF ts]] y eqs show ?thesis by auto
  qed
qed

lemma temporal_rows_applied:
  assumes t: "filtro_temporal T df hoje ui ss = Some t" and a: "available_month_names t \<noteq> []"
  shows "rows (df_temporal t) =
           filter (\<lambda>r. \<exists>ts. cell_at df col_uf r = Some (Timestamp ts)
                         \<and> selected_year t = Some (ts_year ts)
                         \<and> (\<exists>m \<in> set (months_multiselect ui). month_number m = Some (ts_month ts)))
                  (rows df)"
proof -
  from filtro_temporal_Some(3)[OF t a] obtain y nums where y: "selected_year t = Some y"
    and n: "those (map month_number (months_multiselect ui)) = Some nums"
    and rw: "rows (df_temporal t) =
                filter (\<lambda>r. case cell_at df col_uf r of None \<Rightarrow> False
                            | Some c \<Rightarrow> temporal_match y nums c) (rows df)"
    by blast
  have "(case cell_at df col_uf r of None \<Rightarrow> False | Some c \<Rightarrow> temporal_match y nums c)
        \<longleftrightarrow> (\<exists>ts. cell_at df col_uf r = Some (Timestamp ts)
                         \<and> selected_year t = Some (ts_year ts)
                         \<and> (\<exists>m \<in> set (months_multiselect ui). month_number m = Some (ts_month ts)))"
    for r
    by (cases "cell_at df col_uf r")
       (auto simp: temporal_match_Timestamp y those_map_mem[OF n])
  then show ?thesis unfolding rw by simp
qed

lemma temporal_core_default:
  assumes "temporal_core df ui meses s = Some c"
  shows "default_months_for_multiselect c
           = (if filter (\<lambda>m. m \<in> set (available_month_names c)) meses = []
              then available_month_names c
              else filter (\<lambda>m. m \<in> set (available_month_names c)) meses)"
proof (cases "dropna s = []")
  case True
  with assms show ?thesis by (auto simp: temporal_core_def)
next
  case False
  obtain ts where t: "timestamps (dropna s) = Some ts"
    using assms False by (cases "timestamps (dropna s)") (simp_all add: temporal_core_def)
  obtain e where e: "series_min ts = Some e"
    using assms False t by (cases "series_min ts") (simp_all add: temporal_core_def)
  obtain l where l: "series_max ts = Some l"
    using assms False t e by (cases "series_max ts") (simp_all add: temporal_core_def)
  define y where "y = (if ts_year e = ts_year l then ts_year e else year_slider ui)"
  obtain av where av: "those (map (map_of month_names)
                 (sort (remdups (map ts_month (filter (\<lambda>t. ts_year t = y) ts))))) = Some av"
    using assms False t e l
    by (cases "those (map (map_of month_names)
                 (sort (remdups (map ts_month (filter (\<lambda>t. ts_year t = y) ts)))))")
       (simp_all add: temporal_core_def Let_def y_def)
  have "available_month_names c = av
        \<and> default_months_for_multiselect c
            = (if filter (\<lambda>m. m \<in> set av) meses = [] \<and> av \<noteq> [] then av
               else filter (\<lambda>m. m \<in> set av) meses)"
  proof (cases "av = []")
    case True
    with assms False t e l av show ?thesis
      by (auto simp: temporal_core_def Let_def y_def)
  next
    case F: False
    obtain nums where n: "those (map month_number (months_multiselect ui)) = Some nums"
      using assms False t e l av F
      by (cases "those (map month_number (months_multiselect ui))")
         (simp_all add: temporal_core_def Let_def y_def)
    obtain dt where d: "dt_accessor df col_uf = Some dt"
      using assms False t e l av F n
      by (cases "dt_accessor df col_uf") (simp_all add: temporal_core_def Let_def y_def)
    from assms False t e l av F n d show ?thesis
      by (auto simp: temporal_core_def Let_def y_def)
  qed
  then show ?thesis by auto
qed

lemma filtro_temporal_default_months:
  assumes "filtro_temporal T df hoje ui ss = Some t"
  shows "default_months_for_multiselect t
           = (if filter (\<lambda>m. m \<in> set (available_month_names t)) (meses_armazenados ss) = []
              then available_month_names t
              else filter (\<lambda>m. m \<in> set (available_month_names t)) (meses_armazenados ss))"
proof -
  from assms obtain s stored c where
    c: "temporal_core df ui (meses_armazenados ss) s = Some c"
    and t: "t = c\<lparr>session_out := ss\<lparr>fiscal_year_slider := Some (ano_armazenado (anos_disponiveis c) stored),
                                     fiscal_month_multiselect := Some (meses_armazenados ss)\<rparr>\<rparr>"
    unfolding filtro_temporal_factored meses_armazenados_def
    by (auto split: Option.bind_splits)
  from temporal_core_default[OF c] show ?thesis by (simp add: t)
qed

section \<open>The default service type\<close>

text \<open>
  Claim C10. The service types offered are the distinct non-missing values of the
  service-type column of the loaded table, in ascending order. The default selection is
  \<open>Buraco SIGA\<close> when it is offered; otherwise it is the first type offered, which is
  the least one; and it is empty when no type is offered. A run that reaches the panel
  has offered these types with this default.
\<close>

theorem default_service_type:
  assumes "opcoes df col_tipo = Some tipos"
  shows "set tipos = {c. notna c \<and> (\<exists>r \<in> set (rows df). cell_at df col_tipo r = Some c)}
       \<and> distinct tipos \<and> sorted (map cell_key tipos)
       \<and> (Str ''Buraco SIGA'' \<in> set tipos \<longrightarrow> tipo_padrao tipos = [Str ''Buraco SIGA''])
       \<and> (Str ''Buraco SIGA'' \<notin> set tipos \<and> tipos \<noteq> [] \<longrightarrow>
            (\<exists>t. tipo_padrao tipos = [t] \<and> t \<in> set tipos
                 \<and> (\<forall>u \<in> set tipos. cell_key t \<le> cell_key u)))
       \<and> (tipos = [] \<longrightarrow> tipo_padrao tipos = [])
       \<and> (\<forall>ob. filtros_obrigatorios df ui = Some (Inr ob) \<longrightarrow>
            tipos_disponiveis ob = tipos \<and> tipo_default ob = tipo_padrao tipos)"
proof -
  note o = opcoes_Some[OF assms]
  have least: "\<exists>t. tipo_padrao tipos = [t] \<and> t \<in> set tipos
                 \<and> (\<forall>u \<in> set tipos. cell_key t \<le> cell_key u)"
    if "Str ''Buraco SIGA'' \<notin> set tipos" "tipos \<noteq> []"
  proof -
    from that(2) obtain t rest where tr: "tipos = t # rest" by (cases tipos) auto
    with o(2) have "\<forall>u \<in> set tipos. cell_key t \<le> cell_key u" by auto
    with tr that(1) show ?thesis by (auto simp: tipo_padrao_def)
  qed
  have run: "tipos_disponiveis ob = tipos \<and> tipo_default ob = tipo_padrao tipos"
    if "filtros_obrigatorios df ui = Some (Inr ob)" for ob
    using that assms
    by (auto simp: filtros_obrigatorios_def split: Option.bind_splits if_splits)
  show ?thesis
    using o least run by (auto simp: tipo_padrao_def)
qed

theorem default_service_type_witness:
  "opcoes ex_full col_tipo = Some [Str ''Buraco SIGA'', Str ''Poda'']
   \<and> tipo_padrao [Str ''Buraco SIGA'', Str ''Poda''] = [Str ''Buraco SIGA'']
   \<and> opcoes (ex_full\<lparr>rows := tl (rows ex_full)\<rparr>) col_tipo = Some [Str ''Buraco SIGA'', Str ''Poda'']
   \<and> opcoes (ex_full\<lparr>rows := [hd (tl (rows ex_full))]\<rparr>) col_tipo = Some [Str ''Poda'']
   \<and> tipo_padrao [Str ''Poda''] = [Str ''Poda'']"
proof -
  have h1: "opcoes ex_full col_tipo = Some [Str ''Buraco SIGA'', Str ''Poda'']"
    by code_simp
  have h2: "opcoes (ex_full\<lparr>rows := tl (rows ex_full)\<rparr>) col_tipo
            = Some [Str ''Buraco SIGA'', Str ''Poda'']"
    by code_simp
  have h3: "opcoes (ex_full\<lparr>rows := [hd (tl (rows ex_full))]\<rparr>) col_tipo = Some [Str ''Poda'']"
    by code_simp
  from default_service_type[OF h1] default_service_type[OF h3] h1 h2 h3
  show ?thesis by simp
qed

section \<open>The rows of the working table\<close>

text \<open>
  Claim C3, as the script has it. With the three mandatory selections made, every row of
  the working table is a row of the loaded table whose service type, inspector and
  region are among the selected ones. A month is available exactly when the table
  filtered by these three selections has a valid last-inspection date in the selected
  year. When one is, the month selector is shown and the temporal filter is applied: the
  working table then holds exactly the rows with selected type, inspector and region
  whose last-inspection date lies in the selected year and in one of the selected
  months. When none is, the temporal filter is skipped: the working table holds exactly
  the rows with selected type, inspector and region, whatever their date.
\<close>

theorem working_table_rows:
  assumes ob: "filtros_obrigatorios T ui = Some (Inr ob)"
    and t: "filtro_temporal T (df_obrigatorios ob) hoje ui ss = Some t"
  shows "(\<forall>r \<in> set (rows (df_temporal t)).
            r \<in> set (rows T)
          \<and> selected_in T col_tipo (tipos_selecionados ui) r
          \<and> selected_in T col_fiscal (fiscais_selecionados ui) r
          \<and> selected_in T col_rpa (rpas_selecionadas ui) r
          \<and> (available_month_names t \<noteq> [] \<longrightarrow>
               (\<exists>ts y. cell_at T col_uf r = Some (Timestamp ts) \<and> selected_year t = Some y
                  \<and> ts_year ts = y
                  \<and> (\<exists>m \<in> set (months_multiselect ui). month_number m = Some (ts_month ts)))))
       \<and> (available_month_names t \<noteq> [] \<longleftrightarrow>
            (\<exists>x \<in> valid_dates (df_obrigatorios ob). selected_year t = Some (ts_year x)))
       \<and> (available_month_names t \<noteq> [] \<longrightarrow>
            rows (df_temporal t) =
              filter (\<lambda>r. selected_in T col_tipo (tipos_selecionados ui) r
                        \<and> selected_in T col_fiscal (fiscais_selecionados ui) r
                        \<and> selected_in T col_rpa (rpas_selecionadas ui) r
                        \<and> (\<exists>ts. cell_at T col_uf r = Some (Timestamp ts)
                              \<and> selected_year t = Some (ts_year ts)
                              \<and> (\<exists>m \<in> set (months_multiselect ui).
                                    month_number m = Some (ts_month ts))))
                     (rows T))
       \<and> (available_month_names t = [] \<longrightarrow>
            rows (df_temporal t) =
              filter (\<lambda>r. selected_in T col_tipo (tipos_selecionados ui) r
                        \<and> selected_in T col_fiscal (fiscais_selecionados ui) r
                        \<and> selected_in T col_rpa (rpas_selecionadas ui) r)
                     (rows T))"
proof -
  note R = filtros_obrigatorios_rows[OF ob]
  note F = filtro_temporal_Some[OF t]
  have ca: "cell_at (df_obrigatorios ob) = cell_at T"
    by (rule cell_at_cong) (simp add: R(1))
  have skipped: "rows (df_temporal t) =
              filter (\<lambda>r. selected_in T col_tipo (tipos_selecionados ui) r
                        \<and> selected_in T col_fiscal (fiscais_selecionados ui) r
                        \<and> selected_in T col_rpa (rpas_selecionadas ui) r)
                     (rows T)"
    if "available_month_names t = []"
    using F(2)[OF that] R(2) by simp
  have applied: "rows (df_temporal t) =
              filter (\<lambda>r. selected_in T col_tipo (tipos_selecionados ui) r
                        \<and> selected_in T col_fiscal (fiscais_selecionados ui) r
                        \<and> selected_in T col_rpa (rpas_selecionadas ui) r
                        \<and> (\<exists>ts. cell_at T col_uf r = Some (Timestamp ts)
                              \<and> selected_year t = Some (ts_year ts)
                              \<and> (\<exists>m \<in> set (months_multiselect ui).
                                    month_number m = Some (ts_month ts))))
                     (rows T)"
    if "available_month_names t \<noteq> []"
    unfolding temporal_rows_applied[OF t that] R(2) ca filter_filter
    by (rule filter_cong) auto
  have each: "r \<in> set (rows T)
          \<and> selected_in T col_tipo (tipos_selecionados ui) r
          \<and> selected_in T col_fiscal (fiscais_selecionados ui) r
          \<and> selected_in T col_rpa (rpas_selecionadas ui) r
          \<and> (available_month_names t \<noteq> [] \<longrightarrow>
               (\<exists>ts y. cell_at T col_uf r = Some (Timestamp ts) \<and> selected_year t = Some y
                  \<and> ts_year ts = y
                  \<and> (\<exists>m \<in> set (months_multiselect ui). month_number m = Some (ts_month ts))))"
    if r: "r \<in> set (rows (df_temporal t))" for r
  proof (cases "available_month_names t = []")
    case True
    from r show ?thesis unfolding skipped[OF True] using True by simp
  next
    case False
    from r show ?thesis unfolding applied[OF False] by auto
  qed
  from each available_months_empty[OF t] applied skipped show ?thesis
    by blast
qed

text \<open>
  In the example run a month is available and the temporal filter is applied; the
  service of row 3 is in the working table, it is a row of the loaded table, and its
  type, inspector and region are the selected ones. In the run on the table with
  inspections in 2020 and 2022 and the slider on 2021 no month is available, and the
  working table holds the rows that pass the three mandatory filters.
\<close>

theorem working_table_rows_witness:
  "filtros_obrigatorios ex_full ex_ui = Some (Inr ex_ob)
   \<and> filtro_temporal ex_full (df_obrigatorios ex_ob) ex_hoje ex_ui ex_session = Some ex_t
   \<and> available_month_names ex_t \<noteq> []
   \<and> ex_row3 \<in> set (rows (df_temporal ex_t))
   \<and> ex_row3 \<in> set (rows ex_full)
   \<and> selected_in ex_full col_tipo (tipos_selecionados ex_ui) ex_row3
   \<and> selected_in ex_full col_fiscal (fiscais_selecionados ex_ui) ex_row3
   \<and> selected_in ex_full col_rpa (rpas_selecionadas ex_ui) ex_row3
   \<and> rows (df_temporal ex_t) =
        filter (\<lambda>r. selected_in ex_full col_tipo (tipos_selecionados ex_ui) r
                  \<and> selected_in ex_full col_fiscal (fiscais_selecionados ex_ui) r
                  \<and> selected_in ex_full col_rpa (rpas_selecionadas ex_ui) r
                  \<and> (\<exists>ts. cell_at ex_full col_uf r = Some (Timestamp ts)
                        \<and> selected_year ex_t = Some (ts_year ts)
                        \<and> (\<exists>m \<in> set (months_multiselect ex_ui).
                              month_number m = Some (ts_month ts))))
               (rows ex_full)
   \<and> filtros_obrigatorios cx_full cx_ui = Some (Inr cx_ob)
   \<and> filtro_temporal cx_full (df_obrigatorios cx_ob) ex_hoje cx_ui ex_session = Some cx_t
   \<and> available_month_names cx_t = []
   \<and> rows (df_temporal cx_t) =
        filter (\<lambda>r. selected_in cx_full col_tipo (tipos_selecionados cx_ui) r
                  \<and> selected_in cx_full col_fiscal (fiscais_selecionados cx_ui) r
                  \<and> selected_in cx_full col_rpa (rpas_selecionadas cx_ui) r)
               (rows cx_full)"
proof -
  have h1: "filtros_obrigatorios ex_full ex_ui = Some (Inr ex_ob)"
    by code_simp
  have h2: "filtro_temporal ex_full (df_obrigatorios ex_ob) ex_hoje ex_ui ex_session = Some ex_t"
    by code_simp
  have h3: "available_month_names ex_t \<noteq> []"
    by (simp add: ex_t_def)
  have h4: "ex_row3 \<in> set (rows (df_temporal ex_t))"
    by (simp add: ex_t_def ex_working_def)
  note W = working_table_rows[OF h1 h2]
  from W[THEN conjunct1, THEN bspec, OF h4]
  have a1: "ex_row3 \<in> set (rows ex_full)"
    and a2: "selected_in ex_full col_tipo (tipos_selecionados ex_ui) ex_row3"
    and a3: "selected_in ex_full col_fiscal (fiscais_selecionados ex_ui) ex_row3"
    and a4: "selected_in ex_full col_rpa (rpas_selecionadas ex_ui) ex_row3"
    by blast+
  note b = W[THEN conjunct2, THEN conjunct2, THEN conjunct1, THEN mp, OF h3]
  have k1: "filtros_obrigatorios cx_full cx_ui = Some (Inr cx_ob)"
    by code_simp
  have k2: "filtro_temporal cx_full (df_obrigatorios cx_ob) ex_hoje cx_ui ex_session = Some cx_t"
    by code_simp
  have k3: "available_month_names cx_t = []"
    by (simp add: cx_t_def)
  note V = working_table_rows[OF k1 k2]
  note c = V[THEN conjunct2, THEN conjunct2, THEN conjunct2, THEN mp, OF k3]
  show ?thesis
    by (intro conjI h1 h2 h3 h4 a1 a2 a3 a4 b k1 k2 k3 c)
qed

text \<open>
  The claim as stated fails where the selected year has no valid date. The loaded table
  has two services, last inspected in 2020 and in 2022, and the slider stands on 2021:
  no month is available, the temporal filter is skipped, and the run ends with both
  services in the working table although neither was inspected in 2021.
\<close>

theorem working_table_outside_selected_year:
  "filtros_obrigatorios cx_full cx_ui = Some (Inr cx_ob)
   \<and> filtro_temporal cx_full (df_obrigatorios cx_ob) ex_hoje cx_ui ex_session = Some cx_t
   \<and> selected_year cx_t = Some 2021
   \<and> rows (df_temporal cx_t) = [cx_row0, cx_row1]
   \<and> cell_at cx_full col_uf cx_row0 = Some (Timestamp (18262 * ns_per_day))
   \<and> ts_year (18262 * ns_per_day) = 2020
   \<and> cell_at cx_full col_uf cx_row1 = Some (Timestamp (19000 * ns_per_day))
   \<and> ts_year (19000 * ns_per_day) = 2022
   \<and> working_rows (main cx_full cx_ui ex_hoje ex_world)
       = Some [(0, snd cx_row0 @ [Num 1613]), (1, snd cx_row1 @ [Num 875])]"
proof -
  have h1: "filtros_obrigatorios cx_full cx_ui = Some (Inr cx_ob)"
    by code_simp
  have h2: "filtro_temporal cx_full (df_obrigatorios cx_ob) ex_hoje cx_ui ex_session = Some cx_t"
    by code_simp
  have h3: "selected_year cx_t = Some 2021" "rows (df_temporal cx_t) = [cx_row0, cx_row1]"
    by (simp_all add: cx_t_def cx_full_def)
  have h4: "cell_at cx_full col_uf cx_row0 = Some (Timestamp (18262 * ns_per_day))"
    "cell_at cx_full col_uf cx_row1 = Some (Timestamp (19000 * ns_per_day))"
    by code_simp+
  have h5: "ts_year (18262 * ns_per_day) = 2020" "ts_year (19000 * ns_per_day) = 2022"
    by code_simp+
  have h6: "working_rows (main cx_full cx_ui ex_hoje ex_world)
       = Some [(0, snd cx_row0 @ [Num 1613]), (1, snd cx_row1 @ [Num 875])]"
    by code_simp
  show ?thesis
    by (intro conjI h1 h2 h3 h4 h5 h6)
qed

section \<open>Missing dates and the temporal filter\<close>

text \<open>
  Claim C6, as the script has it. A missing last-inspection date matches no year and no
  months. When the temporal filter is applied (a month is available for the selected
  year), every row it keeps has a last-inspection date. When it is not applied (the
  table has no valid date, or none in the selected year), the table passes unchanged.
\<close>

theorem missing_dates_and_temporal_filter:
  assumes "filtro_temporal T df hoje ui ss = Some t"
  shows "(\<forall>y nums c. \<not> notna c \<longrightarrow> \<not> temporal_match y nums c)
       \<and> (available_month_names t \<noteq> [] \<longrightarrow>
            (\<forall>r \<in> set (rows (df_temporal t)). \<exists>ts. cell_at df col_uf r = Some (Timestamp ts)))
       \<and> (available_month_names t = [] \<longrightarrow> df_temporal t = df)"
proof -
  note F = filtro_temporal_Some[OF assms]
  have a: "\<not> temporal_match y nums c" if "\<not> notna c" for y nums c
    using that by (cases c) (auto simp: temporal_match_def)
  have b: "\<exists>ts. cell_at df col_uf r = Some (Timestamp ts)"
    if "available_month_names t \<noteq> []" "r \<in> set (rows (df_temporal t))" for r
    using F(3)[OF that(1)] that(2)
    by (auto simp: temporal_match_Timestamp split: option.splits)
  from a b F(2) show ?thesis by blast
qed

text \<open>
  In the example run the never-inspected service of row 4 reaches the temporal filter
  and is dropped by it.
\<close>

theorem missing_dates_and_temporal_filter_witness:
  "filtro_temporal ex_full ex_filtered ex_hoje ex_ui ex_session = Some ex_t
   \<and> available_month_names ex_t \<noteq> []
   \<and> cell_at ex_filtered col_uf ex_row4 = Some NaT
   \<and> ex_row4 \<in> set (rows ex_filtered)
   \<and> ex_row4 \<notin> set (rows (df_temporal ex_t))"
proof -
  have h1: "filtro_temporal ex_full ex_filtered ex_hoje ex_ui ex_session = Some ex_t"
    by code_simp
  have h2: "available_month_names ex_t \<noteq> []"
    by (simp add: ex_t_def)
  have h3: "cell_at ex_filtered col_uf ex_row4 = Some NaT"
    by code_simp
  have h4: "ex_row4 \<in> set (rows ex_filtered)"
    by (simp add: ex_filtered_def)
  from missing_dates_and_temporal_filter[OF h1] h1 h2 h3 h4 show ?thesis by force
qed

text \<open>
  The claim as stated fails on a loaded table without any valid date: its one service
  was never inspected, the temporal filter is not applied, and the run ends with that
  service in the working table.
\<close>

theorem temporal_filter_keeps_missing_date:
  "filtros_obrigatorios cx_missing ex_ui = Some (Inr cx_missing_ob)
   \<and> filtro_temporal cx_missing (df_obrigatorios cx_missing_ob) ex_hoje ex_ui ex_session
       = Some cx_missing_t
   \<and> rows (df_temporal cx_missing_t) = [cx_missing_row]
   \<and> cell_at cx_missing col_uf cx_missing_row = Some NaT
   \<and> working_rows (main cx_missing ex_ui ex_hoje ex_world)
       = Some [(0, snd cx_missing_row @ [PyNone])]"
proof -
  have h1: "filtros_obrigatorios cx_missing ex_ui = Some (Inr cx_missing_ob)"
    by code_simp
  have h2: "filtro_temporal cx_missing (df_obrigatorios cx_missing_ob) ex_hoje ex_ui ex_session
       = Some cx_missing_t"
    by code_simp
  have h3: "rows (df_temporal cx_missing_t) = [cx_missing_row]"
    by (simp add: cx_missing_t_def cx_missing_def)
  have h4: "cell_at cx_missing col_uf cx_missing_row = Some NaT"
    by code_simp
  have h5: "working_rows (main cx_missing ex_ui ex_hoje ex_world)
       = Some [(0, snd cx_missing_row @ [PyNone])]"
    by code_simp
  show ?thesis
    by (intro conjI h1 h2 h3 h4 h5)
qed

section \<open>The computed column\<close>

text \<open>
  Claim C5. On a table that has the last-inspection column, holding time stamps and
  missing values, lines 234 to 236 succeed and return the table with the days-since
  column: it has the same rows in the same order, each with its index label and every
  other cell as before, and in each row the days-since cell is null exactly when the
  last inspection of that row is missing, and otherwise it is the number of days from
  the date part of the last inspection to the current date, negative for a date in the
  future.
\<close>

theorem days_since_last_inspection:
  assumes "rectangular df"
    and "getitem df col_uf = Some s"
    and "list_all date_or_missing s"
  shows "\<exists>df'. calcular_dias hoje df = Some df'
           \<and> length (rows df') = length (rows df)
           \<and> (\<forall>k < length (rows df).
                fst (rows df' ! k) = fst (rows df ! k)
              \<and> (\<forall>name. name \<noteq> col_dias \<longrightarrow>
                    cell_at df' name (rows df' ! k) = cell_at df name (rows df ! k))
              \<and> (\<exists>u d. cell_at df col_uf (rows df ! k) = Some u
                    \<and> cell_at df' col_dias (rows df' ! k) = Some d
                    \<and> (notna d \<longleftrightarrow> notna u)
                    \<and> (\<forall>ts. u = Timestamp ts \<longrightarrow> d = Num (hoje - to_date ts))
                    \<and> (notna u \<longrightarrow> (\<exists>ts. u = Timestamp ts))))"
proof -
  from calcular_dias_total[OF assms(2,3)] obtain df' where c: "calcular_dias hoje df = Some df'"
    by blast
  note R = calcular_dias_rows[OF c assms(1)]
  have "\<forall>k < length (rows df).
                fst (rows df' ! k) = fst (rows df ! k)
              \<and> (\<forall>name. name \<noteq> col_dias \<longrightarrow>
                    cell_at df' name (rows df' ! k) = cell_at df name (rows df ! k))
              \<and> (\<exists>u d. cell_at df col_uf (rows df ! k) = Some u
                    \<and> cell_at df' col_dias (rows df' ! k) = Some d
                    \<and> (notna d \<longleftrightarrow> notna u)
                    \<and> (\<forall>ts. u = Timestamp ts \<longrightarrow> d = Num (hoje - to_date ts))
                    \<and> (notna u \<longrightarrow> (\<exists>ts. u = Timestamp ts)))"
  proof (intro allI impI conjI)
    fix k assume k: "k < length (rows df)"
    show "fst (rows df' ! k) = fst (rows df ! k)" by (rule R(2)[OF k])
    show "\<exists>u d. cell_at df col_uf (rows df ! k) = Some u
                    \<and> cell_at df' col_dias (rows df' ! k) = Some d
                    \<and> (notna d \<longleftrightarrow> notna u)
                    \<and> (\<forall>ts. u = Timestamp ts \<longrightarrow> d = Num (hoje - to_date ts))
                    \<and> (notna u \<longrightarrow> (\<exists>ts. u = Timestamp ts))" by (rule R(4)[OF k])
    fix name assume "name \<noteq> col_dias"
    then show "cell_at df' name (rows df' ! k) = cell_at df name (rows df ! k)"
      by (rule R(3)[OF k])
  qed
  with c R(1) show ?thesis by blast
qed

text \<open>
  On the example table filtered by type, inspector and region, on 2024-06-01: the
  fourth service was never inspected and gets no day count, the third was inspected on
  2024-04-20 and counts 42 days. The working table the example run ends with is the
  temporally filtered table with its day counts.
\<close>

theorem days_since_last_inspection_witness:
  "rectangular ex_filtered
   \<and> getitem ex_filtered col_uf
       = Some [Timestamp (19787 * ns_per_day + 52200000000000), Timestamp (19787 * ns_per_day),
               Timestamp (19833 * ns_per_day), NaT, Timestamp (19721 * ns_per_day)]
   \<and> list_all date_or_missing
        [Timestamp (19787 * ns_per_day + 52200000000000), Timestamp (19787 * ns_per_day),
         Timestamp (19833 * ns_per_day), NaT, Timestamp (19721 * ns_per_day)]
   \<and> calcular_dias ex_hoje ex_filtered = Some ex_filtered_dias
   \<and> length (rows ex_filtered_dias) = length (rows ex_filtered)
   \<and> cell_at ex_filtered col_uf (rows ex_filtered ! 3) = Some NaT
   \<and> cell_at ex_filtered_dias col_dias (rows ex_filtered_dias ! 3) = Some NaN
   \<and> cell_at ex_filtered col_uf (rows ex_filtered ! 2) = Some (Timestamp (19833 * ns_per_day))
   \<and> cell_at ex_filtered_dias col_dias (rows ex_filtered_dias ! 2) = Some (Num 42)
   \<and> ex_hoje - to_date (19833 * ns_per_day) = 42
   \<and> calcular_dias ex_hoje ex_working = Some ex_working_dias
   \<and> working_rows (main ex_full ex_ui ex_hoje ex_world) = Some (rows ex_working_dias)"
proof -
  have h1: "rectangular ex_filtered"
    by code_simp
  have h2: "getitem ex_filtered col_uf
       = Some [Timestamp (19787 * ns_per_day + 52200000000000), Timestamp (19787 * ns_per_day),
               Timestamp (19833 * ns_per_day), NaT, Timestamp (19721 * ns_per_day)]"
    by code_simp
  have h3: "list_all date_or_missing
        [Timestamp (19787 * ns_per_day + 52200000000000), Timestamp (19787 * ns_per_day),
         Timestamp (19833 * ns_per_day), NaT, Timestamp (19721 * ns_per_day)]"
    by simp
  have h4: "calcular_dias ex_hoje ex_filtered = Some ex_filtered_dias"
    by code_simp
  from days_since_last_inspection[OF h1 h2 h3, of ex_hoje] h4
  have h5: "length (rows ex_filtered_dias) = length (rows ex_filtered)"
    by auto
  have h6: "cell_at ex_filtered col_uf (rows ex_filtered ! 3) = Some NaT"
    "cell_at ex_filtered col_uf (rows ex_filtered ! 2) = Some (Timestamp (19833 * ns_per_day))"
    by code_simp+
  have h7: "cell_at ex_filtered_dias col_dias (rows ex_filtered_dias ! 3) = Some NaN"
    "cell_at ex_filtered_dias col_dias (rows ex_filtered_dias ! 2) = Some (Num 42)"
    by code_simp+
  have h8: "ex_hoje - to_date (19833 * ns_per_day) = 42"
    by code_simp
  have h9: "calcular_dias ex_hoje ex_working = Some ex_working_dias"
    by code_simp
  have h10: "working_rows (main ex_full ex_ui ex_hoje ex_world) = Some (rows ex_working_dias)"
    by code_simp
  show ?thesis
    by (intro conjI h1 h2 h3 h4 h5 h6 h7 h8 h9 h10)
qed

section \<open>The alert table\<close>

text \<open>
  Claim C4, as the script has it. The alert selection holds exactly the rows of the
  working table whose days-since value is a number above the limit, whatever the limit
  (the slider offers 0 to 180); it is empty when the working table is empty, and then
  no table is shown. Otherwise the table shown has those rows, ranked from 1, in
  descending order of the days-since value; rows with equal values follow one another,
  so the order is not strict.
\<close>

theorem alert_table:
  assumes "tabela_alerta df limite = Some a"
  shows "rows (df_alerta_visual a)
           = filter (\<lambda>r. \<exists>n. cell_at df col_dias r = Some (Num n) \<and> limite < n) (rows df)
       \<and> (rows df = [] \<longrightarrow> rows (df_alerta_visual a) = [])
       \<and> (rows (df_alerta_visual a) = [] \<longrightarrow> df_alerta_ordenado a = None \<and> tabela_exibida a = None)
       \<and> (rows (df_alerta_visual a) \<noteq> [] \<longrightarrow>
            (\<exists>ordenado shown ns. df_alerta_ordenado a = Some ordenado
               \<and> tabela_exibida a = Some shown
               \<and> mset (map snd (rows ordenado)) = mset (map snd (rows (df_alerta_visual a)))
               \<and> map fst (rows ordenado) = map int [1 ..< Suc (length (rows (df_alerta_visual a)))]
               \<and> map (cell_at df col_dias) (rows ordenado) = map (\<lambda>n. Some (Num n)) ns
               \<and> sorted (rev ns) \<and> (\<forall>n \<in> set ns. limite < n)
               \<and> map fst (columns shown) = colunas_alerta
               \<and> map fst (rows shown) = map fst (rows ordenado)))"
proof -
  from assms obtain v where v: "alerta_visual df limite = Some v"
    by (auto simp: tabela_alerta_def split: Option.bind_splits)
  note V = alerta_visual_Some[OF v]
  show ?thesis
  proof (cases "rows v = []")
    case True
    with assms v have "a = \<lparr>df_alerta_visual = v, df_alerta_ordenado = None, tabela_exibida = None\<rparr>"
      by (simp add: tabela_alerta_def)
    with True V show ?thesis by auto
  next
    case False
    with assms v obtain sd shown where sd: "sort_values_desc v col_dias = Some sd"
      and sh: "select_columns (index_add 1 (reset_index sd)) colunas_alerta = Some shown"
      and a: "a = \<lparr>df_alerta_visual = v, df_alerta_ordenado = Some (index_add 1 (reset_index sd)),
                   tabela_exibida = Some shown\<rparr>"
      by (auto simp: tabela_alerta_def Let_def split: Option.bind_splits)
    define ordenado where "ordenado = index_add 1 (reset_index sd)"
    note S = sort_values_desc_Some[OF sd]
    from S(3) V(1) obtain i where i: "get_loc col_dias (columns df) = Some i"
      and srt: "sorted (rev (map (\<lambda>r. cell_key (snd r ! i)) (rows sd)))"
      by auto
    have ca: "cell_at df col_dias r = Some (snd r ! i)" for r
      by (simp add: cell_at_def i)
    have inv: "\<exists>n. snd r ! i = Num n \<and> limite < n" if "r \<in> set (rows sd)" for r
    proof -
      from that S(2) have "r \<in> set (rows v)" by (metis set_mset_mset)
      then show ?thesis by (auto simp: V(2) ca)
    qed
    define ns where "ns = map (\<lambda>r. case snd r ! i of Num n \<Rightarrow> n | _ \<Rightarrow> 0) (rows sd)"
    have "snd r ! i = Num (case snd r ! i of Num n \<Rightarrow> n | _ \<Rightarrow> 0)"
      if "r \<in> set (rows sd)" for r
      using inv[OF that] by auto
    then have cells: "map (\<lambda>r. snd r ! i) (rows sd) = map Num ns"
      by (simp add: ns_def comp_def)
    have big: "\<forall>n \<in> set ns. limite < n"
      unfolding ns_def using inv by force
    from srt have "sorted (rev (map cell_key (map (\<lambda>r. snd r ! i) (rows sd))))"
      by (simp add: comp_def)
    then have "sorted (rev (map (\<lambda>n. cell_key (Num n)) ns))"
      by (simp only: cells) (simp add: comp_def)
    then have "sorted (map (\<lambda>n. cell_key (Num n)) (rev ns))" by (simp add: rev_map)
    then have desc: "sorted (rev ns)" using sorted_cell_key_Num[of "rev ns"] by simp
    note R = reset_index_rows[of sd]
    have o1: "mset (map snd (rows ordenado)) = mset (map snd (rows v))"
      unfolding ordenado_def R(1) using S(2) by (metis mset_map)
    have lenv: "length (rows sd) = length (rows v)"
      using S(2) by (metis size_mset)
    have o2: "map fst (rows ordenado) = map int [1 ..< Suc (length (rows v))]"
      unfolding ordenado_def R(2) lenv ..
    have "map (cell_at df col_dias) (rows ordenado) = map (\<lambda>cs. Some (cs ! i)) (map snd (rows ordenado))"
      by (simp add: ca comp_def)
    also have "\<dots> = map (\<lambda>cs. Some (cs ! i)) (map snd (rows sd))"
      by (simp only: ordenado_def R(1))
    also have "\<dots> = map Some (map (\<lambda>r. snd r ! i) (rows sd))" by (simp add: comp_def)
    also have "\<dots> = map (\<lambda>n. Some (Num n)) ns" by (simp only: cells) (simp add: comp_def)
    finally have o3: "map (cell_at df col_dias) (rows ordenado) = map (\<lambda>n. Some (Num n)) ns" .
    note H = select_columns_Some[OF sh]
    from a False V o1 o2 o3 desc big H show ?thesis
      unfolding ordenado_def[symmetric] by auto
  qed
qed


theorem alert_table_witness:
  "calcular_dias ex_hoje ex_working = Some ex_working_dias
   \<and> tabela_alerta ex_working_dias 50 = Some ex_alerta
   \<and> rows (df_alerta_visual ex_alerta) \<noteq> []
   \<and> rows (df_alerta_visual ex_alerta)
       = filter (\<lambda>r. \<exists>n. cell_at ex_working_dias col_dias r = Some (Num n) \<and> 50 < n)
           (rows ex_working_dias)
   \<and> rows (df_alerta_visual ex_alerta) = [(0, snd ex_row0 @ [Num 88]), (2, snd ex_row2 @ [Num 88])]
   \<and> map fst (rows ex_ordenado) = [1, 2]
   \<and> map (cell_at ex_working_dias col_dias) (rows ex_working_dias)
       = [Some (Num 88), Some (Num 88), Some (Num 42)]"
proof -
  have h0: "calcular_dias ex_hoje ex_working = Some ex_working_dias"
    by code_simp
  have h1: "tabela_alerta ex_working_dias 50 = Some ex_alerta"
    by code_simp
  have h2: "rows (df_alerta_visual ex_alerta) = [(0, snd ex_row0 @ [Num 88]), (2, snd ex_row2 @ [Num 88])]"
    by (simp add: ex_alerta_def ex_visual_def)
  have h3: "map fst (rows ex_ordenado) = [1, 2]"
    by (simp add: ex_ordenado_def)
  have h4: "map (cell_at ex_working_dias col_dias) (rows ex_working_dias)
       = [Some (Num 88), Some (Num 88), Some (Num 42)]"
    by code_simp
  have ne: "rows (df_alerta_visual ex_alerta) \<noteq> []"
    by (simp add: h2)
  from alert_table[OF h1]
  have t1: "rows (df_alerta_visual ex_alerta)
       = filter (\<lambda>r. \<exists>n. cell_at ex_working_dias col_dias r = Some (Num n) \<and> 50 < n)
           (rows ex_working_dias)"
    by (rule conjunct1)
  show ?thesis by (intro conjI h0 h1 ne t1 h2 h3 h4)
qed

text \<open>
  The order is not strictly descending: the two alerts of the example were both
  inspected on 2024-03-05 and both count 88 days.
\<close>

theorem alert_table_has_ties:
  "tabela_alerta ex_working_dias 50 = Some ex_alerta
   \<and> df_alerta_ordenado ex_alerta = Some ex_ordenado
   \<and> map (cell_at ex_ordenado col_dias) (rows ex_ordenado) = [Some (Num 88), Some (Num 88)]
   \<and> \<not> sorted_wrt (\<lambda>a b. a > b) [88 :: int, 88]"
proof -
  have h1: "tabela_alerta ex_working_dias 50 = Some ex_alerta"
    by code_simp
  have h2: "df_alerta_ordenado ex_alerta = Some ex_ordenado"
    by (simp add: ex_alerta_def)
  have h3: "map (cell_at ex_ordenado col_dias) (rows ex_ordenado) = [Some (Num 88), Some (Num 88)]"
    by code_simp
  from h1 h2 h3 show ?thesis by simp
qed

section \<open>The exporter and the tables it is given\<close>

text \<open>
  Claim C9. For a table with distinct column labels the exporter writes the columns in
  the order of the table, none added or removed, every date-time column as
  \<^verbatim>\<open>YYYY-MM-DD\<close> text, and asks for every column a width of the longest of header and
  cell texts plus 2 (lemma \<open>exporter_sheet\<close>). The centring is lost: line 69 sets the
  centre format of the column, and line 77 sets the width of the same column in a call
  of its own, without a format, which replaces what line 69 stored (lemma
  \<open>exporter_col_info\<close>). On the example every column ends with its width and no
  format.
\<close>

theorem exporter_drops_center_format:
  "download_excel_with_formatting 0 \<lparr>heap = [ex_full], session_state = ex_session\<rparr>
     = Some (ex_book, \<lparr>heap = [ex_exported], session_state = ex_session\<rparr>)
   \<and> map (col_info (set_column_calls ex_book)) [0 ..< 9]
       = [Some (Some 5, None), Some (Some 7, None), Some (Some 8, None), Some (Some 12, None),
          Some (Some 8, None), Some (Some 17, None), Some (Some 8, None), Some (Some 18, None),
          Some (Some 21, None)]"
proof -
  have h1: "download_excel_with_formatting 0 \<lparr>heap = [ex_full], session_state = ex_session\<rparr>
     = Some (ex_book, \<lparr>heap = [ex_exported], session_state = ex_session\<rparr>)"
    by code_simp
  have h2: "map (col_info (set_column_calls ex_book)) [0 ..< 9]
       = [Some (Some 5, None), Some (Some 7, None), Some (Some 8, None), Some (Some 12, None),
          Some (Some 8, None), Some (Some 17, None), Some (Some 8, None), Some (Some 18, None),
          Some (Some 21, None)]"
    by code_simp
  from h1 h2 show ?thesis by simp
qed

text \<open>
  Claim C1. The exporter works on the object it is given: line 55 assigns the date text
  to the columns of that object. After a run of the script the loaded table, which the
  session state also refers to, holds text where it held time stamps.
\<close>

theorem export_overwrites_loaded_table:
  "map_option (\<lambda>res. (heap (snd res) ! 0, df_original_available (session_state (snd res))))
     (main ex_full ex_ui ex_hoje ex_world) = Some (ex_exported, Some 0)
   \<and> cell_at ex_full col_uf ex_row0 = Some (Timestamp (19787 * ns_per_day + 52200000000000))
   \<and> cell_at ex_exported col_uf (hd (rows ex_exported)) = Some (Str ''2024-03-05'')
   \<and> map snd (columns ex_full) ! 8 = datetime64
   \<and> map snd (columns ex_exported) ! 8 = object"
proof -
  have h1: "map_option (\<lambda>res. (heap (snd res) ! 0, df_original_available (session_state (snd res))))
     (main ex_full ex_ui ex_hoje ex_world) = Some (ex_exported, Some 0)"
    by code_simp
  have h2: "cell_at ex_full col_uf ex_row0 = Some (Timestamp (19787 * ns_per_day + 52200000000000))"
    by code_simp
  have h3: "cell_at ex_exported col_uf (hd (rows ex_exported)) = Some (Str ''2024-03-05'')"
    by code_simp
  have h4: "map snd (columns ex_full) ! 8 = datetime64" "map snd (columns ex_exported) ! 8 = object"
    by code_simp+
  from h1 h2 h3 h4 show ?thesis by simp
qed

section \<open>Halting on an empty selection\<close>

text \<open>
  Claim C7. When the service types can be offered and none is selected, the run stops
  with the warning for the service type; when a type is selected, the inspectors can be
  offered and none is selected, it stops with the warning for the inspector; and
  likewise for the region. It stops in the world of line 120: the loaded table is on
  the heap as it was loaded, and the stored year and months are what they were.
  Metrics, alerts and exports belong to a run that reaches the panel, and such a run
  has all three selections non-empty.
\<close>

theorem selection_required_halts:
  assumes "opcoes T col_tipo = Some tipos"
  shows "(tipos_selecionados ui = [] \<longrightarrow>
            main T ui hoje w = Some (Stopped SelecioneTipo, after_load T w))
       \<and> (\<forall>df1 fiscais. tipos_selecionados ui \<noteq> []
            \<and> filtrar_isin T col_tipo (tipos_selecionados ui) = Some df1
            \<and> opcoes df1 col_fiscal = Some fiscais \<and> fiscais_selecionados ui = [] \<longrightarrow>
            main T ui hoje w = Some (Stopped SelecioneFiscal, after_load T w))
       \<and> (\<forall>df1 fiscais df2 rpas. tipos_selecionados ui \<noteq> []
            \<and> filtrar_isin T col_tipo (tipos_selecionados ui) = Some df1
            \<and> opcoes df1 col_fiscal = Some fiscais \<and> fiscais_selecionados ui \<noteq> []
            \<and> filtrar_isin df1 col_fiscal (fiscais_selecionados ui) = Some df2
            \<and> opcoes df2 col_rpa = Some rpas \<and> rpas_selecionadas ui = [] \<longrightarrow>
            main T ui hoje w = Some (Stopped SelecioneRPA, after_load T w))
       \<and> heap (after_load T w) ! length (heap w) = T
       \<and> take (length (heap w)) (heap (after_load T w)) = heap w
       \<and> fiscal_year_slider (session_state (after_load T w)) = fiscal_year_slider (session_state w)
       \<and> fiscal_month_multiselect (session_state (after_load T w))
           = fiscal_month_multiselect (session_state w)
       \<and> (\<forall>p w'. main T ui hoje w = Some (Rendered p, w') \<longrightarrow>
            tipos_selecionados ui \<noteq> [] \<and> fiscais_selecionados ui \<noteq> []
            \<and> rpas_selecionadas ui \<noteq> [])"
proof -
  have a: "main T ui hoje w = Some (Stopped SelecioneTipo, after_load T w)"
    if "tipos_selecionados ui = []"
    using that assms by (simp add: main_Stopped_iff filtros_obrigatorios_def)
  have b: "main T ui hoje w = Some (Stopped SelecioneFiscal, after_load T w)"
    if "tipos_selecionados ui \<noteq> []" "filtrar_isin T col_tipo (tipos_selecionados ui) = Some df1"
      "opcoes df1 col_fiscal = Some fiscais" "fiscais_selecionados ui = []" for df1 fiscais
    using that assms by (simp add: main_Stopped_iff filtros_obrigatorios_def)
  have c: "main T ui hoje w = Some (Stopped SelecioneRPA, after_load T w)"
    if "tipos_selecionados ui \<noteq> []" "filtrar_isin T col_tipo (tipos_selecionados ui) = Some df1"
      "opcoes df1 col_fiscal = Some fiscais" "fiscais_selecionados ui \<noteq> []"
      "filtrar_isin df1 col_fiscal (fiscais_selecionados ui) = Some df2"
      "opcoes df2 col_rpa = Some rpas" "rpas_selecionadas ui = []" for df1 fiscais df2 rpas
    using that assms by (simp add: main_Stopped_iff filtros_obrigatorios_def)
  have d: "tipos_selecionados ui \<noteq> [] \<and> fiscais_selecionados ui \<noteq> [] \<and> rpas_selecionadas ui \<noteq> []"
    if "main T ui hoje w = Some (Rendered p, w')" for p w'
  proof -
    from that obtain ob where "filtros_obrigatorios T ui = Some (Inr ob)"
      by (cases "filtros_obrigatorios T ui")
         (auto simp: main_cases split: sum.splits)
    from filtros_obrigatorios_Inr(1)[OF this] show ?thesis .
  qed
  have e: "heap (after_load T w) ! length (heap w) = T
       \<and> take (length (heap w)) (heap (after_load T w)) = heap w
       \<and> fiscal_year_slider (session_state (after_load T w)) = fiscal_year_slider (session_state w)
       \<and> fiscal_month_multiselect (session_state (after_load T w))
           = fiscal_month_multiselect (session_state w)"
    by (simp add: after_load_def)
  from a b c d e show ?thesis by blast
qed


theorem selection_required_halts_witness:
  "opcoes ex_full col_tipo = Some [Str ''Buraco SIGA'', Str ''Poda'']
   \<and> tipos_selecionados (ex_ui\<lparr>tipos_selecionados := []\<rparr>) = []
   \<and> main ex_full (ex_ui\<lparr>tipos_selecionados := []\<rparr>) ex_hoje ex_world
       = Some (Stopped SelecioneTipo, after_load ex_full ex_world)
   \<and> heap (after_load ex_full ex_world) ! length (heap ex_world) = ex_full
   \<and> filtrar_isin ex_full col_tipo (tipos_selecionados ex_ui) = Some ex_filtered
   \<and> opcoes ex_filtered col_fiscal = Some [Str ''F1'']
   \<and> main ex_full (ex_ui\<lparr>fiscais_selecionados := []\<rparr>) ex_hoje ex_world
       = Some (Stopped SelecioneFiscal, after_load ex_full ex_world)"
proof -
  have h: "opcoes ex_full col_tipo = Some [Str ''Buraco SIGA'', Str ''Poda'']"
    by code_simp
  have e: "tipos_selecionados (ex_ui\<lparr>tipos_selecionados := []\<rparr>) = []"
    by simp
  have f1: "filtrar_isin ex_full col_tipo (tipos_selecionados ex_ui) = Some ex_filtered"
    by code_simp
  have f2: "opcoes ex_filtered col_fiscal = Some [Str ''F1'']"
    by code_simp
  have f3: "tipos_selecionados ex_ui \<noteq> []"
    by (simp add: ex_ui_def)
  note t1 = selection_required_halts[OF h, of "ex_ui\<lparr>tipos_selecionados := []\<rparr>" ex_hoje ex_world]
  note t2 = selection_required_halts[OF h, of "ex_ui\<lparr>fiscais_selecionados := []\<rparr>" ex_hoje ex_world]
  from t1 have a: "main ex_full (ex_ui\<lparr>tipos_selecionados := []\<rparr>) ex_hoje ex_world
       = Some (Stopped SelecioneTipo, after_load ex_full ex_world)"
    by simp
  from t1 have b: "heap (after_load ex_full ex_world) ! length (heap ex_world) = ex_full"
    by simp
  from t2 f1 f2 f3 have c: "main ex_full (ex_ui\<lparr>fiscais_selecionados := []\<rparr>) ex_hoje ex_world
       = Some (Stopped SelecioneFiscal, after_load ex_full ex_world)"
    by simp
  show ?thesis by (intro conjI h e a b f1 f2 c)
qed

section \<open>Running the script again\<close>

text \<open>
  Claim C8. A run that reaches the panel leaves a world (the heap with the exported
  tables on it, the session state with the stored year and months) from which the same
  run, on the same loaded table with the same selections on the same day, reaches the
  panel again with the same offered options, the same working table, the same alerts
  and the same workbooks. The stored months stay as they are, and so does the stored
  year when the year range of the filtered table is in order.
\<close>

theorem rerun_same_working_table:
  assumes "main T ui hoje w = Some (Rendered p, w')"
  shows "\<exists>p2 w2. main T ui hoje w' = Some (Rendered p2, w2)
     \<and> filtros p2 = filtros p
     \<and> df_temporal (tempo p2) = df_temporal (tempo p)
     \<and> selected_year (tempo p2) = selected_year (tempo p)
     \<and> df_final p2 = df_final p \<and> alertas p2 = alertas p
     \<and> buffer_completo p2 = buffer_completo p \<and> buffer_filtrado p2 = buffer_filtrado p
     \<and> fiscal_month_multiselect (session_state w2) = fiscal_month_multiselect (session_state w')
     \<and> ((case anos_disponiveis (tempo p) of None \<Rightarrow> True | Some (lo, hi) \<Rightarrow> lo \<le> hi) \<longrightarrow>
           fiscal_year_slider (session_state w2) = fiscal_year_slider (session_state w'))"
proof -
  define n where "n = length (heap w)"
  define W2 where "W2 = (after_load T w)\<lparr>heap := heap w @ [T, df_final p],
                                          session_state := session_out (tempo p)\<rparr>"
  from main_Rendered[OF assms] obtain w3 where
    f1: "filtros_obrigatorios T ui = Some (Inr (filtros p))"
    and f2: "filtro_temporal T (df_obrigatorios (filtros p)) hoje ui (session_state (after_load T w))
         = Some (tempo p)"
    and f3: "calcular_dias hoje (df_temporal (tempo p)) = Some (df_final p)"
    and f4: "tabela_alerta (df_final p) (alerta_dias_config ui) = Some (alertas p)"
    and f5: "download_excel_with_formatting n W2 = Some (buffer_completo p, w3)"
    and f6: "download_excel_with_formatting (Suc n) w3 = Some (buffer_filtrado p, w')"
    unfolding n_def W2_def by blast
  from download_shape[OF f5] obtain d1 where w3: "w3 = W2\<lparr>heap := (heap W2)[n := d1]\<rparr>" by blast
  from download_shape[OF f6] obtain d2 where w': "w' = w3\<lparr>heap := (heap w3)[Suc n := d2]\<rparr>" by blast
  have len: "length (heap w') = n + 2" and ses: "session_state w' = session_out (tempo p)"
    by (simp_all add: w' w3 W2_def n_def)
  have al: "session_state (after_load T w')
            = (session_out (tempo p))\<lparr>df_original_available := Some (n + 2)\<rparr>"
    by (simp add: after_load_def len ses)
  from filtro_temporal_rerun[OF f2, of "Some (n + 2)"] obtain t2 where
    g2: "filtro_temporal T (df_obrigatorios (filtros p)) hoje ui (session_state (after_load T w'))
         = Some t2"
    and t2: "df_temporal t2 = df_temporal (tempo p)" "selected_year t2 = selected_year (tempo p)"
      "fiscal_month_multiselect (session_out t2) = fiscal_month_multiselect (session_out (tempo p))"
      "(case anos_disponiveis (tempo p) of None \<Rightarrow> True | Some (lo, hi) \<Rightarrow> lo \<le> hi) \<longrightarrow>
           fiscal_year_slider (session_out t2) = fiscal_year_slider (session_out (tempo p))"
    unfolding al by blast
  define V2 where "V2 = (after_load T w')\<lparr>heap := heap w' @ [T, df_final p],
                                           session_state := session_out t2\<rparr>"
  have "heap V2 ! length (heap w') = heap W2 ! n"
    by (simp add: V2_def W2_def n_def nth_append)
  from download_same_table[OF f5 this] obtain v3 where
    g5: "download_excel_with_formatting (length (heap w')) V2 = Some (buffer_completo p, v3)"
    by blast
  from download_shape[OF g5] obtain e1 where
    v3: "v3 = V2\<lparr>heap := (heap V2)[length (heap w') := e1]\<rparr>" by blast
  have "heap v3 ! Suc (length (heap w')) = heap w3 ! Suc n"
    by (simp add: v3 V2_def w3 W2_def n_def nth_append)
  from download_same_table[OF f6 this] obtain v4 where
    g6: "download_excel_with_formatting (Suc (length (heap w'))) v3 = Some (buffer_filtrado p, v4)"
    by blast
  from download_shape[OF g6] obtain e2 where
    v4: "v4 = v3\<lparr>heap := (heap v3)[Suc (length (heap w')) := e2]\<rparr>" by blast
  have g3: "calcular_dias hoje (df_temporal t2) = Some (df_final p)"
    by (simp add: t2 f3)
  have run2: "main T ui hoje w'
      = Some (Rendered \<lparr>filtros = filtros p, tempo = t2, df_final = df_final p,
                        alertas = alertas p, buffer_completo = buffer_completo p,
                        buffer_filtrado = buffer_filtrado p\<rparr>, v4)"
    by (rule main_RenderedI[OF f1 g2 g3 f4 g5[unfolded V2_def] g6])
  have ses4: "session_state v4 = session_out t2"
    by (simp add: v4 v3 V2_def)
  show ?thesis
    unfolding run2 using t2 by (simp add: ses4 ses)
qed


theorem rerun_same_working_table_witness:
  "\<exists>p w' p2 w2. main ex_full ex_ui ex_hoje ex_world = Some (Rendered p, w')
     \<and> df_final p = ex_working_dias
     \<and> anos_disponiveis (tempo p) = Some (2023, 2024)
     \<and> main ex_full ex_ui ex_hoje w' = Some (Rendered p2, w2)
     \<and> df_final p2 = ex_working_dias
     \<and> fiscal_year_slider (session_state w2) = fiscal_year_slider (session_state w')"
proof -
  have "map_option (\<lambda>res. case fst res of
                            Rendered p \<Rightarrow> Some (df_final p, anos_disponiveis (tempo p))
                          | Stopped a \<Rightarrow> None)
          (main ex_full ex_ui ex_hoje ex_world)
        = Some (Some (ex_working_dias, Some (2023, 2024)))"
    by code_simp
  then obtain p w' where h: "main ex_full ex_ui ex_hoje ex_world = Some (Rendered p, w')"
    and d: "df_final p = ex_working_dias" and a: "anos_disponiveis (tempo p) = Some (2023, 2024)"
    by (cases "main ex_full ex_ui ex_hoje ex_world") (auto split: outcome.splits)
  from rerun_same_working_table[OF h] a d h show ?thesis
    by (auto simp: ex_working_dias_def)
qed

section \<open>The options the sidebar offers\<close>

text \<open>
  Claim C2, as the script has it. The service types offered are the non-missing values
  of the loaded table. The inspectors offered are those of the rows with a selected
  service type; the regions offered are those of the rows with a selected service type
  and a selected inspector. The year range and the months offered come from the valid
  last-inspection dates of the rows that pass all three filters: the range runs from
  the year of the earliest to the year of the latest of these dates, and the months are
  those of these dates that fall in the selected year. The year the run leaves in the
  session state starts from the stored one or, when none is stored, from the latest
  valid date of the loaded table (the current year when it has none), and is brought
  into the year range of the filtered rows. The months preselected are the stored
  months that are still offered, or all the months offered when none of them is.
\<close>

theorem offered_domains:
  assumes ob: "filtros_obrigatorios T ui = Some (Inr ob)"
    and t: "filtro_temporal T (df_obrigatorios ob) hoje ui ss = Some t"
  shows "set (tipos_disponiveis ob)
           = {c. notna c \<and> (\<exists>r \<in> set (rows T). cell_at T col_tipo r = Some c)}
       \<and> set (fiscais_disponiveis ob)
           = {c. notna c \<and> (\<exists>r \<in> set (rows T).
                  selected_in T col_tipo (tipos_selecionados ui) r
                  \<and> cell_at T col_fiscal r = Some c)}
       \<and> set (rpas_disponiveis ob)
           = {c. notna c \<and> (\<exists>r \<in> set (rows T).
                  selected_in T col_tipo (tipos_selecionados ui) r
                  \<and> selected_in T col_fiscal (fiscais_selecionados ui) r
                  \<and> cell_at T col_rpa r = Some c)}
       \<and> rows (df_obrigatorios ob)
           = filter (\<lambda>r. selected_in T col_tipo (tipos_selecionados ui) r
                        \<and> selected_in T col_fiscal (fiscais_selecionados ui) r
                        \<and> selected_in T col_rpa (rpas_selecionadas ui) r) (rows T)
       \<and> (anos_disponiveis t = None \<longleftrightarrow> valid_dates (df_obrigatorios ob) = {})
       \<and> (\<forall>lo hi. anos_disponiveis t = Some (lo, hi) \<longrightarrow>
            (\<exists>e \<in> valid_dates (df_obrigatorios ob). \<exists>l \<in> valid_dates (df_obrigatorios ob).
               (\<forall>x \<in> valid_dates (df_obrigatorios ob). e \<le> x \<and> x \<le> l)
               \<and> lo = ts_year e \<and> hi = ts_year l))
       \<and> (\<forall>y. selected_year t = Some y \<longrightarrow>
            set (available_month_names t)
              = {name. \<exists>x \<in> valid_dates (df_obrigatorios ob).
                   ts_year x = y \<and> map_of month_names (ts_month x) = Some name})
       \<and> (\<exists>stored. fiscal_year_slider (session_out t)
                       = Some (ano_armazenado (anos_disponiveis t) stored)
            \<and> (fiscal_year_slider ss = Some stored
               \<or> fiscal_year_slider ss = None
                 \<and> ((valid_dates T = {} \<and> stored = date_year hoje)
                    \<or> (\<exists>l \<in> valid_dates T. (\<forall>x \<in> valid_dates T. x \<le> l) \<and> stored = ts_year l))))
       \<and> (\<forall>lo hi y. anos_disponiveis t = Some (lo, hi) \<and> lo \<le> hi
             \<and> fiscal_year_slider (session_out t) = Some y \<longrightarrow> lo \<le> y \<and> y \<le> hi)
       \<and> default_months_for_multiselect t
           = (if filter (\<lambda>m. m \<in> set (available_month_names t)) (meses_armazenados ss) = []
              then available_month_names t
              else filter (\<lambda>m. m \<in> set (available_month_names t)) (meses_armazenados ss))"
proof -
  define D where "D = df_obrigatorios ob"
  from filtros_obrigatorios_Inr(2)[OF ob] obtain df1 df2 where
    o1: "opcoes T col_tipo = Some (tipos_disponiveis ob)"
    and f1: "filtrar_isin T col_tipo (tipos_selecionados ui) = Some df1"
    and o2: "opcoes df1 col_fiscal = Some (fiscais_disponiveis ob)"
    and f2: "filtrar_isin df1 col_fiscal (fiscais_selecionados ui) = Some df2"
    and o3: "opcoes df2 col_rpa = Some (rpas_disponiveis ob)"
    by blast
  note F1 = filtrar_isin_Some[OF f1] and F2 = filtrar_isin_Some[OF f2]
  have c1: "cell_at df1 = cell_at T" by (rule cell_at_cong) (simp add: F1)
  have c2: "cell_at df2 = cell_at T" by (rule cell_at_cong) (simp add: F1 F2)
  have A: "set (tipos_disponiveis ob)
           = {c. notna c \<and> (\<exists>r \<in> set (rows T). cell_at T col_tipo r = Some c)}"
    by (rule opcoes_Some(1)[OF o1])
  have B: "set (fiscais_disponiveis ob)
           = {c. notna c \<and> (\<exists>r \<in> set (rows T).
                  selected_in T col_tipo (tipos_selecionados ui) r
                  \<and> cell_at T col_fiscal r = Some c)}"
    unfolding opcoes_Some(1)[OF o2] c1 F1(2) selected_in_iff by auto
  have C: "set (rpas_disponiveis ob)
           = {c. notna c \<and> (\<exists>r \<in> set (rows T).
                  selected_in T col_tipo (tipos_selecionados ui) r
                  \<and> selected_in T col_fiscal (fiscais_selecionados ui) r
                  \<and> cell_at T col_rpa r = Some c)}"
    unfolding opcoes_Some(1)[OF o3] c2 c1 F2(2) F1(2) selected_in_iff by auto
  note R = filtros_obrigatorios_rows(2)[OF ob]
  from filtro_temporal_parts[OF t] obtain s stored c where
    s: "getitem D col_uf = Some s"
    and st: "(case fiscal_year_slider ss of Some y \<Rightarrow> Some y | None \<Rightarrow> ano_inicial T hoje) = Some stored"
    and c: "temporal_core D ui (case fiscal_month_multiselect ss of Some ms \<Rightarrow> ms | None \<Rightarrow> []) s = Some c"
    and eqs: "anos_disponiveis t = anos_disponiveis c" "selected_year t = selected_year c"
      "available_month_names t = available_month_names c"
    and yr: "fiscal_year_slider (session_out t) = Some (ano_armazenado (anos_disponiveis c) stored)"
    unfolding D_def by blast
  note K = temporal_core_facts[OF c]
  have E: "anos_disponiveis t = None \<longleftrightarrow> valid_dates D = {}"
  proof (cases "dropna s = []")
    case True
    with K(1) eqs(1) dropna_empty_valid_dates[OF s True] show ?thesis by simp
  next
    case False
    from temporal_core_nonempty[OF c False] obtain ts where ts: "timestamps (dropna s) = Some ts"
      by blast
    from timestamps_Some[OF ts] False have "set ts \<noteq> {}" by auto
    with valid_dates_set[OF s timestamps_Some[OF ts]] have "valid_dates D \<noteq> {}" by simp
    with K(1) eqs(1) False show ?thesis by simp
  qed
  have G: "\<exists>e \<in> valid_dates D. \<exists>l \<in> valid_dates D.
               (\<forall>x \<in> valid_dates D. e \<le> x \<and> x \<le> l) \<and> lo = ts_year e \<and> hi = ts_year l"
    if "anos_disponiveis t = Some (lo, hi)" for lo hi
  proof -
    from that eqs(1) have "anos_disponiveis c = Some (lo, hi)" by simp
    from K(3)[OF this] obtain ts e l where d: "dropna s = map Timestamp ts"
      and m: "e \<in> set ts" "l \<in> set ts" "\<forall>x \<in> set ts. e \<le> x \<and> x \<le> l"
        "lo = ts_year e" "hi = ts_year l"
      by blast
    from m show ?thesis unfolding valid_dates_set[OF s d] by blast
  qed
  have H: "set (available_month_names t)
              = {name. \<exists>x \<in> valid_dates D. ts_year x = y \<and> map_of month_names (ts_month x) = Some name}"
    if "selected_year t = Some y" for y
  proof -
    from that eqs(2) have "selected_year c = Some y" by simp
    from K(4)[OF this] obtain ts where d: "dropna s = map Timestamp ts"
      and m: "map (map_of month_names) (sort (remdups (map ts_month (filter (\<lambda>t. ts_year t = y) ts))))
                 = map Some (available_month_names c)"
      by blast
    from months_set[OF m] show ?thesis unfolding valid_dates_set[OF s d] eqs(3) .
  qed
  have I: "fiscal_year_slider ss = Some stored
               \<or> fiscal_year_slider ss = None
                 \<and> ((valid_dates T = {} \<and> stored = date_year hoje)
                    \<or> (\<exists>l \<in> valid_dates T. (\<forall>x \<in> valid_dates T. x \<le> l) \<and> stored = ts_year l))"
  proof (cases "fiscal_year_slider ss")
    case None
    with st have "ano_inicial T hoje = Some stored" by simp
    from ano_inicial_Some[OF this] None show ?thesis by simp
  next
    case (Some y)
    with st show ?thesis by simp
  qed
  have J: "lo \<le> y \<and> y \<le> hi"
    if "anos_disponiveis t = Some (lo, hi)" "lo \<le> hi" "fiscal_year_slider (session_out t) = Some y"
    for lo hi y
    using that yr eqs(1) ano_armazenado_range[of lo hi stored] by simp
  from yr eqs(1) I have Y: "\<exists>stored. fiscal_year_slider (session_out t)
                       = Some (ano_armazenado (anos_disponiveis t) stored)
            \<and> (fiscal_year_slider ss = Some stored
               \<or> fiscal_year_slider ss = None
                 \<and> ((valid_dates T = {} \<and> stored = date_year hoje)
                    \<or> (\<exists>l \<in> valid_dates T. (\<forall>x \<in> valid_dates T. x \<le> l) \<and> stored = ts_year l)))"
    by auto
  note M = filtro_temporal_default_months[OF t]
  from A B C R E G H Y J M show ?thesis
    unfolding D_def by blast
qed

theorem offered_domains_witness:
  "filtros_obrigatorios ex_full ex_ui = Some (Inr ex_ob)
   \<and> filtro_temporal ex_full (df_obrigatorios ex_ob) ex_hoje ex_ui ex_session = Some ex_t
   \<and> anos_disponiveis ex_t = Some (2023, 2024)
   \<and> fiscal_year_slider (session_out ex_t) = Some 2024
   \<and> valid_dates (df_obrigatorios ex_ob) \<noteq> {}
   \<and> (2023 :: int) \<le> 2024 \<and> (2024 :: int) \<le> 2024"
proof -
  have h1: "filtros_obrigatorios ex_full ex_ui = Some (Inr ex_ob)"
    by code_simp
  have h2: "filtro_temporal ex_full (df_obrigatorios ex_ob) ex_hoje ex_ui ex_session = Some ex_t"
    by code_simp
  have h3: "anos_disponiveis ex_t = Some (2023, 2024)"
    by (simp add: ex_t_def)
  have h4: "fiscal_year_slider (session_out ex_t) = Some 2024"
    by (simp add: ex_t_def)
  from offered_domains[OF h1 h2]
  have u: "anos_disponiveis ex_t = None \<longleftrightarrow> valid_dates (df_obrigatorios ex_ob) = {}"
    by blast
  from u h3 have h5: "valid_dates (df_obrigatorios ex_ob) \<noteq> {}"
    by simp
  from offered_domains[OF h1 h2]
  have "\<forall>lo hi y. anos_disponiveis ex_t = Some (lo, hi) \<and> lo \<le> hi
             \<and> fiscal_year_slider (session_out ex_t) = Some y \<longrightarrow> lo \<le> y \<and> y \<le> hi"
    by blast
  with h3 h4 have h6: "(2023 :: int) \<le> 2024 \<and> (2024 :: int) \<le> 2024"
    by simp
  show ?thesis by (intro conjI h1 h2 h3 h4 h5 conjunct1[OF h6] conjunct2[OF h6])
qed

text \<open>
  The claim as stated fails: in the example the loaded table has the inspectors F1 and
  F2 and the regions RPA 1 and RPA 2, and with the service type \<open>Buraco SIGA\<close>
  selected the sidebar offers F1 and RPA 1 only.
\<close>

theorem offered_inspectors_follow_selected_types:
  "filtros_obrigatorios ex_full ex_ui = Some (Inr ex_ob)
   \<and> fiscais_disponiveis ex_ob = [Str ''F1'']
   \<and> opcoes ex_full col_fiscal = Some [Str ''F1'', Str ''F2'']
   \<and> rpas_disponiveis ex_ob = [Str ''RPA 1'']
   \<and> opcoes ex_full col_rpa = Some [Str ''RPA 1'', Str ''RPA 2'']"
proof -
  have h1: "filtros_obrigatorios ex_full ex_ui = Some (Inr ex_ob)"
    by code_simp
  have h2: "fiscais_disponiveis ex_ob = [Str ''F1'']" "rpas_disponiveis ex_ob = [Str ''RPA 1'']"
    by (simp_all add: ex_ob_def)
  have h3: "opcoes ex_full col_fiscal = Some [Str ''F1'', Str ''F2'']"
    by code_simp
  have h4: "opcoes ex_full col_rpa = Some [Str ''RPA 1'', Str ''RPA 2'']"
    by code_simp
  show ?thesis by (intro conjI h1 h2 h3 h4)
qed

end
